theory Spec2Isabelle
  imports Main
begin

section \<open>Strings as Python sees them\<close>

text \<open>
  A character of the model is one code point below 256, so a \<^typ>\<open>string\<close> is a Python
  \<^verbatim>\<open>str\<close> over that range. \<^verbatim>\<open>str.strip()\<close> with no argument removes the characters for
  which \<^verbatim>\<open>str.isspace\<close> holds; below 256 these are 0x09-0x0D, 0x1C-0x20, 0x85 and 0xA0.
\<close>

definition LF :: char where
  "LF = CHR 0x0A"

definition CR :: char where
  "CR = CHR 0x0D"

definition isspace :: "char \<Rightarrow> bool" where
  "isspace c = (c \<in> set [CHR 0x09, CHR 0x0A, CHR 0x0B, CHR 0x0C, CHR 0x0D,
                           CHR 0x1C, CHR 0x1D, CHR 0x1E, CHR 0x1F, CHR 0x20,
                           CHR 0x85, CHR 0xA0])"

definition strip :: "string \<Rightarrow> string" where
  "strip s = rev (dropWhile isspace (rev (dropWhile isspace s)))"

text \<open>\<^verbatim>\<open>str.rstrip()\<close>, to state what an appended line binds.\<close>

definition rstrip :: "string \<Rightarrow> string" where
  "rstrip s = rev (dropWhile isspace (rev s))"

definition startswith :: "string \<Rightarrow> char \<Rightarrow> bool" where
  "startswith s c = (case s of [] \<Rightarrow> False | d # _ \<Rightarrow> d = c)"

text \<open>\<^verbatim>\<open>line.split('=', 1)\<close> on a line that contains \<^verbatim>\<open>=\<close>: the text before the first
  \<^verbatim>\<open>=\<close> and the text after it.\<close>

definition split_eq :: "string \<Rightarrow> string \<times> string" where
  "split_eq s = (takeWhile (\<lambda>c. c \<noteq> CHR ''='') s, tl (dropWhile (\<lambda>c. c \<noteq> CHR ''='') s))"

section \<open>Reading the file line by line\<close>

text \<open>
  \<^verbatim>\<open>open('.env', 'r')\<close> is a text file with universal newlines: \<^verbatim>\<open>\r\n\<close> and a lone
  \<^verbatim>\<open>\r\<close> are both read as \<^verbatim>\<open>\n\<close>. Iterating the file yields each line with its
  terminating \<^verbatim>\<open>\n\<close>, and a last line without one when the file does not end in a newline.
\<close>

fun universal_newlines :: "string \<Rightarrow> string" where
  "universal_newlines [] = []"
| "universal_newlines [c] = (if c = CR then [LF] else [c])"
| "universal_newlines (c # d # cs) =
     (if c = CR then (if d = LF then LF # universal_newlines cs
                      else LF # universal_newlines (d # cs))
      else c # universal_newlines (d # cs))"

fun split_lines :: "string \<Rightarrow> string \<Rightarrow> string list" where
  "split_lines cur [] = (if cur = [] then [] else [cur])"
| "split_lines cur (c # cs) =
     (if c = LF then (cur @ [LF]) # split_lines [] cs else split_lines (cur @ [c]) cs)"

definition readlines :: "string \<Rightarrow> string list" where
  "readlines content = split_lines [] (universal_newlines content)"

section \<open>load_env (lines 13-26)\<close>

type_synonym env = "string \<rightharpoonup> string"

text \<open>Lines 19-21: the binding one line of the file contributes, if any.\<close>

definition parse_line :: "string \<Rightarrow> (string \<times> string) option" where
  "parse_line raw =
     (let line = strip raw in
      if line \<noteq> [] \<and> \<not> startswith line (CHR ''#'') \<and> CHR ''='' \<in> set line
      then Some (split_eq line) else None)"

text \<open>Lines 18-22: the loop over the lines, updating the dictionary \<^verbatim>\<open>env_vars\<close>.\<close>

fun env_loop :: "string list \<Rightarrow> env \<Rightarrow> env" where
  "env_loop [] env_vars = env_vars"
| "env_loop (raw # rest) env_vars =
     env_loop rest (case parse_line raw of
                      None \<Rightarrow> env_vars
                    | Some (key, val) \<Rightarrow> env_vars(key \<mapsto> val))"

definition parse_env :: "string \<Rightarrow> env" where
  "parse_env content = env_loop (readlines content) Map.empty"

text \<open>The key=value pairs of a file in the order of their lines, and the lines of a file
  without their terminators.\<close>

definition bindings :: "string \<Rightarrow> (string \<times> string) list" where
  "bindings content = List.map_filter parse_line (readlines content)"

definition chomp :: "string \<Rightarrow> string" where
  "chomp l = (if l \<noteq> [] \<and> last l = LF then butlast l else l)"

definition content_lines :: "string \<Rightarrow> string list" where
  "content_lines content = map chomp (readlines content)"

text \<open>\<^verbatim>\<open>env_vars.get(key, default)\<close>.\<close>

definition env_get :: "env \<Rightarrow> string \<Rightarrow> string \<Rightarrow> string" where
  "env_get env_vars key dflt = (case env_vars key of None \<Rightarrow> dflt | Some v \<Rightarrow> v)"

section \<open>int() and str() on integers\<close>

text \<open>
  \<^verbatim>\<open>int(s)\<close> in base 10: surrounding whitespace is dropped, one sign is allowed, and the
  rest is decimal digits with single underscores between digits. The whitespace \<^verbatim>\<open>int\<close>
  skips is not that of \<^verbatim>\<open>str.strip\<close>: it is the C whitespace 0x09-0x0D and 0x20, and of
  the characters from 0x80 on those that \<^verbatim>\<open>int\<close> first maps to a space, 0x85 and 0xA0; the
  separators 0x1C-0x1F are not skipped, so \<^verbatim>\<open>int\<close> raises on them. Interpreters with a limit
  on the length of integer strings raise ValueError as well when the literal has more than
  640 digits and more than the limit; the limit is a parameter, 0 for no limit.
  \<^verbatim>\<open>None\<close> stands for ValueError.
\<close>

definition int_space :: "char \<Rightarrow> bool" where
  "int_space c = (c \<in> set [CHR 0x09, CHR 0x0A, CHR 0x0B, CHR 0x0C, CHR 0x0D, CHR 0x20,
                             CHR 0x85, CHR 0xA0])"

definition int_strip :: "string \<Rightarrow> string" where
  "int_strip s = rev (dropWhile int_space (rev (dropWhile int_space s)))"

definition isdigit :: "char \<Rightarrow> bool" where
  "isdigit c = (c \<in> set ''0123456789'')"

definition digit_val :: "char \<Rightarrow> nat" where
  "digit_val c = length (takeWhile (\<lambda>d. d \<noteq> c) ''0123456789'')"

fun digits_rest :: "string \<Rightarrow> bool" where
  "digits_rest [] = True"
| "digits_rest [c] = isdigit c"
| "digits_rest (c # d # ds) =
     (if isdigit c then digits_rest (d # ds)
      else c = CHR ''_'' \<and> isdigit d \<and> digits_rest ds)"

definition literal_ok :: "string \<Rightarrow> bool" where
  "literal_ok body = (case body of [] \<Rightarrow> False | c # cs \<Rightarrow> isdigit c \<and> digits_rest cs)"

definition digits_value :: "string \<Rightarrow> nat" where
  "digits_value ds = foldl (\<lambda>a c. 10 * a + digit_val c) 0 ds"

definition py_int :: "nat \<Rightarrow> string \<Rightarrow> int option" where
  "py_int max_str_digits s =
     (let t = int_strip s;
          signed = (startswith t (CHR ''-'') \<or> startswith t (CHR ''+''));
          body = (if signed then tl t else t);
          ds = filter isdigit body
      in if literal_ok body \<and> \<not> (640 < length ds \<and> 0 < max_str_digits \<and> max_str_digits < length ds)
         then Some (if startswith t (CHR ''-'') then - int (digits_value ds)
                    else int (digits_value ds))
         else None)"

function str_nat :: "nat \<Rightarrow> string" where
  "str_nat n = (if n < 10 then [''0123456789'' ! n]
                else str_nat (n div 10) @ [''0123456789'' ! (n mod 10)])"
  by pat_completeness auto
termination
  by (relation "measure id") auto

definition str_int :: "int \<Rightarrow> string" where
  "str_int i = (if i < 0 then CHR ''-'' # str_nat (nat (- i)) else str_nat (nat i))"

section \<open>The world outside the script\<close>

text \<open>
  Exceptions by the handler that catches them: a subclass of \<^verbatim>\<open>Exception\<close> with the text
  \<^verbatim>\<open>str(e)\<close>, \<^verbatim>\<open>KeyboardInterrupt\<close>, and any other \<^verbatim>\<open>BaseException\<close>.
\<close>

datatype exn = Exception string | KeyboardInterrupt | BaseException string

datatype 'a outcome = Returns 'a | Raises exn

text \<open>The fields of \<^verbatim>\<open>me\<close> that lines 63-68 read: \<open>first_name\<close> and \<open>user_id\<close> as the
  f-strings show them, \<open>last_name\<close> and \<open>username\<close> with \<^verbatim>\<open>None\<close> possible; \<^verbatim>\<open>None\<close> in
  \<open>premium\<close> is an object without that attribute or with the attribute \<^verbatim>\<open>None\<close>. When
  \<^verbatim>\<open>get_me\<close> returns no user object, line 63 raises AttributeError before it prints, which
  is the outcome \<open>Raises\<close> of \<open>w_get_me\<close>.\<close>

record user =
  first_name :: string
  last_name :: "string option"
  username :: "string option"
  user_id :: int
  premium :: "bool option"

text \<open>
  What the script observes of its environment: the command line, the interpreter's version,
  the version of the library when it can be imported, the interpreter's limit on integer
  strings, the file \<^verbatim>\<open>.env\<close> (\<open>None\<close> when it does not exist, which is FileNotFoundError),
  the outcome \<open>w_read\<close> of opening a file that exists and reading it to its end (\<open>Raises\<close>
  for PermissionError, IsADirectoryError, UnicodeDecodeError and the like), and the outcome
  of each library call and of the opening of the file for appending.
  The script has no loop around these calls, so one outcome per call describes the remote
  side. The constructor \<^verbatim>\<open>TelegramClient(StringSession(), api_id, api_hash)\<close> only stores
  its arguments. \<open>w_int_error s\<close> is the text of the ValueError that \<^verbatim>\<open>int(s)\<close> raises.
\<close>

record world =
  w_argv :: "string list"
  w_version_info :: "nat \<times> nat"
  w_telethon_version :: "string option"
  w_max_str_digits :: nat
  w_int_error :: "string \<Rightarrow> string"
  w_file :: "string option"
  w_read :: "unit outcome"
  w_start :: "unit outcome"
  w_is_user_authorized :: "bool outcome"
  w_get_me :: "user outcome"
  w_session_save :: "string outcome"
  w_append :: "unit outcome"
  w_get_entity :: "int \<Rightarrow> unit outcome"
  w_disconnect :: "unit outcome"

text \<open>What a run does, in order: every \<^verbatim>\<open>print\<close> with its argument, every access to the
  file and every library call.\<close>

datatype event =
    Print string
  | OpenRead
  | NewClient int string
  | Start
  | IsUserAuthorized
  | GetMe
  | SessionSave
  | AppendEnv string
  | GetEntity int
  | Disconnect
  | PipInstall

datatype status = Completed | SysExit int | Uncaught exn

record run =
  trace :: "event list"
  final_file :: "string option"
  status :: status

text \<open>\<^verbatim>\<open>open('.env', 'a')\<close> followed by one \<^verbatim>\<open>write\<close>: the text goes to the end of the file
  as it is (the line separator of the platform is \<^verbatim>\<open>\n\<close>), and a missing file is created.
  When the opening raises, nothing is written.\<close>

definition append_file :: "string option \<Rightarrow> string \<Rightarrow> string option" where
  "append_file fs text = (case fs of None \<Rightarrow> Some text | Some content \<Rightarrow> Some (content @ text))"

section \<open>load_env with its effects (lines 13-26)\<close>

text \<open>\<open>Inl\<close> is how the process ends inside \<^verbatim>\<open>load_env\<close>: by \<^verbatim>\<open>sys.exit(1)\<close> after the message
  for a missing file, or by the exception that \<^verbatim>\<open>open\<close> or the reading raises. The only
  handler is the one for FileNotFoundError, and the call on line 35 is outside every
  \<^verbatim>\<open>try\<close>, so any other exception leaves the process uncaught.\<close>

definition load_env :: "string option \<Rightarrow> unit outcome \<Rightarrow> event list \<times> (status + env)" where
  "load_env fs rd =
     (case fs of
        None \<Rightarrow> ([OpenRead, Print ''.env file not found!''], Inl (SysExit 1))
      | Some content \<Rightarrow>
          (case rd of
             Raises e \<Rightarrow> ([OpenRead], Inl (Uncaught e))
           | Returns _ \<Rightarrow> ([OpenRead], Inr (parse_env content))))"

section \<open>setup_session (lines 28-108)\<close>

definition banner :: "event list" where
  "banner =
     [Print ''Telegram Session Setup for IPA Bot'',
      Print ''====================================='',
      Print ''This will authenticate your personal Telegram account'',
      Print (''Make sure you have Telegram Premium for 4GB file uploads'' @ [LF])]"

text \<open>Lines 37-46: the two credentials, or the message printed before \<^verbatim>\<open>sys.exit(1)\<close>.
  \<^verbatim>\<open>dict.get\<close> never raises KeyError, so the first handler is entered on ValueError only;
  \<^verbatim>\<open>not api_id\<close> holds for 0 and \<^verbatim>\<open>not api_hash\<close> for the empty string.\<close>

definition credentials :: "nat \<Rightarrow> env \<Rightarrow> string + (int \<times> string)" where
  "credentials max_str_digits env_vars =
     (case py_int max_str_digits (env_get env_vars ''TELEGRAM_API_ID'' []) of
        None \<Rightarrow> Inl ''Missing TELEGRAM_API_ID or TELEGRAM_API_HASH in .env file''
      | Some api_id \<Rightarrow>
          (let api_hash = env_get env_vars ''TELEGRAM_API_HASH'' [] in
           if api_id = 0 \<or> api_hash = []
           then Inl ''Invalid API_ID or API_HASH in .env file''
           else Inr (api_id, api_hash)))"

text \<open>Lines 63-72.\<close>

definition user_info :: "user \<Rightarrow> event list" where
  "user_info me =
     [Print (''Authenticated as: '' @ first_name me @ '' '' @
               (case last_name me of None \<Rightarrow> [] | Some n \<Rightarrow> n)),
      Print (''Username: @'' @
               (case username me of None \<Rightarrow> ''no username''
                | Some u \<Rightarrow> if u = [] then ''no username'' else u)),
      Print (''User ID: '' @ str_int (user_id me))] @
     (if premium me = Some True
      then [Print ''Telegram Premium: YES - can upload up to 4GB files'']
      else [Print ''Telegram Premium: NO - limited to 2GB files'',
            Print ''Consider upgrading to Telegram Premium for larger file uploads''])"

text \<open>Lines 92-93.\<close>

definition channel_warning :: "string \<Rightarrow> event list" where
  "channel_warning e =
     [Print (''Warning: Cannot access backup channel: '' @ e),
      Print ''Make sure your account is added to the backup channel'']"

text \<open>Lines 85-93: the events, and the exception that leaves the inner \<^verbatim>\<open>try\<close>, if any.\<close>

definition backup_channel_test :: "world \<Rightarrow> env \<Rightarrow> event list \<times> exn option" where
  "backup_channel_test w env_vars =
     (let backup_channel = env_get env_vars ''BACKUP_CHANNEL_ID'' [] in
      if backup_channel = [] then ([], None)
      else
        (let testing = Print (LF # ''Testing access to backup channel: '' @ backup_channel) in
         case py_int (w_max_str_digits w) backup_channel of
           None \<Rightarrow> (testing # channel_warning (w_int_error w backup_channel), None)
         | Some n \<Rightarrow>
             (case w_get_entity w n of
                Returns _ \<Rightarrow>
                  ([testing, GetEntity n, Print ''Backup channel access confirmed!''], None)
              | Raises (Exception e) \<Rightarrow> ([testing, GetEntity n] @ channel_warning e, None)
              | Raises KeyboardInterrupt \<Rightarrow> ([testing, GetEntity n], Some KeyboardInterrupt)
              | Raises (BaseException b) \<Rightarrow> ([testing, GetEntity n], Some (BaseException b)))))"

text \<open>Line 79.\<close>

definition session_line :: "string \<Rightarrow> string" where
  "session_line session_string = LF # ''USER_SESSION_STRING='' @ session_string @ [LF]"

text \<open>Lines 55-96, the body of the outer \<^verbatim>\<open>try\<close>: the events, the file afterwards and the
  exception that leaves the body, if any.\<close>

definition setup_session_try :: "world \<Rightarrow> env \<Rightarrow> event list \<times> string option \<times> exn option" where
  "setup_session_try w env_vars =
     (let fs = w_file w;
          t0 = [Print (LF # ''Starting authentication...''), Start]
      in case w_start w of
        Raises e \<Rightarrow> (t0, fs, Some e)
      | Returns _ \<Rightarrow>
     (let t1 = t0 @ [IsUserAuthorized]
      in case w_is_user_authorized w of
        Raises e \<Rightarrow> (t1, fs, Some e)
      | Returns authorized \<Rightarrow>
      if \<not> authorized then (t1 @ [Print ''Authentication failed''], fs, None)
      else
     (let t2 = t1 @ [Print ''Authentication successful!'', GetMe]
      in case w_get_me w of
        Raises e \<Rightarrow> (t2, fs, Some e)
      | Returns me \<Rightarrow>
     (let t3 = t2 @ user_info me @ [SessionSave]
      in case w_session_save w of
        Raises e \<Rightarrow> (t3, fs, Some e)
      | Returns session_string \<Rightarrow>
     (let t4 = t3 @ [AppendEnv (session_line session_string)]
      in case w_append w of
        Raises e \<Rightarrow> (t4, fs, Some e)
      | Returns _ \<Rightarrow>
     (let t5 = t4 @ [Print (LF # ''Session string saved to .env file''),
                     Print ''Setup completed! You can now upload large files.''];
          check = backup_channel_test w env_vars
      in (t5 @ fst check, append_file fs (session_line session_string), snd check)))))))"

text \<open>Lines 98-106: what the handlers of the outer \<^verbatim>\<open>try\<close> print.\<close>

definition handlers :: "exn option \<Rightarrow> event list" where
  "handlers raised =
     (case raised of
        None \<Rightarrow> []
      | Some KeyboardInterrupt \<Rightarrow> [Print (LF # ''Setup cancelled by user'')]
      | Some (Exception e) \<Rightarrow>
          [Print (LF # ''Setup failed: '' @ e),
           Print (LF # ''Troubleshooting:''),
           Print ''1. Make sure your phone number includes country code (+84987654321)'',
           Print ''2. Check Telegram app for verification code'',
           Print ''3. If you have 2FA, enter your password correctly'',
           Print ''4. Ensure you have internet connection'']
      | Some (BaseException b) \<Rightarrow> [])"

text \<open>Lines 107-108 and the end of the coroutine: an exception of \<^verbatim>\<open>disconnect\<close> replaces
  whatever was pending; otherwise an exception no handler caught goes on.\<close>

definition finally_status :: "world \<Rightarrow> exn option \<Rightarrow> status" where
  "finally_status w raised =
     (case w_disconnect w of
        Raises e \<Rightarrow> Uncaught e
      | Returns _ \<Rightarrow>
          (case raised of
             Some (BaseException b) \<Rightarrow> Uncaught (BaseException b)
           | _ \<Rightarrow> Completed))"

text \<open>Lines 28-52 and the assembly of the run. \<open>Inl\<close> of \<open>load_env\<close> and \<open>Inl message\<close> of
  \<open>credentials\<close> end the process before any \<^verbatim>\<open>try\<close> with a \<^verbatim>\<open>finally\<close> is entered.\<close>

definition setup_session :: "world \<Rightarrow> run" where
  "setup_session w =
     (case load_env (w_file w) (w_read w) of
        (t, Inl ended) \<Rightarrow> \<lparr>trace = banner @ t, final_file = w_file w, status = ended\<rparr>
      | (t, Inr env_vars) \<Rightarrow>
     (case credentials (w_max_str_digits w) env_vars of
        Inl message \<Rightarrow>
          \<lparr>trace = banner @ t @ [Print message], final_file = w_file w, status = SysExit 1\<rparr>
      | Inr (api_id, api_hash) \<Rightarrow>
     (let body = setup_session_try w env_vars;
          raised = snd (snd body)
      in \<lparr>trace = banner @ t @
                    [Print (''Using API_ID: '' @ str_int api_id),
                     Print (''Using API_HASH: '' @ take 8 api_hash @ ''...''),
                     NewClient api_id api_hash] @
                    fst body @ handlers raised @ [Disconnect],
          final_file = fst (snd body),
          status = finally_status w raised\<rparr>)))"

section \<open>main (lines 110-127)\<close>

text \<open>\<^verbatim>\<open>sys.version_info < (3, 6)\<close> compares major and minor version lexicographically.
  \<open>main\<close> is modelled as written, with the branch of lines 120-124 for a library that
  cannot be imported; \<^verbatim>\<open>asyncio.run\<close> runs the coroutine to its end and passes on what it
  raises.\<close>

definition version_lt :: "nat \<times> nat \<Rightarrow> nat \<times> nat \<Rightarrow> bool" where
  "version_lt v u = (fst v < fst u \<or> (fst v = fst u \<and> snd v < snd u))"

definition main :: "world \<Rightarrow> run" where
  "main w =
     (if version_lt (w_version_info w) (3, 6)
      then \<lparr>trace = [Print ''Python 3.6+ is required''], final_file = w_file w, status = SysExit 1\<rparr>
      else
        (case w_telethon_version w of
           None \<Rightarrow>
             \<lparr>trace = [Print ''Telethon not installed. Installing...'', PipInstall,
                       Print ''Telethon installed. Please run the script again.''],
              final_file = w_file w, status = SysExit 0\<rparr>
         | Some v \<Rightarrow>
             (let r = setup_session w
              in r\<lparr>trace := Print (''Telethon version: '' @ v) # trace r\<rparr>)))"

section \<open>Observations on a run\<close>

text \<open>The texts a run tried to append to the file, and the operations on the file and the
  library it performed, by name and without their arguments.\<close>

definition appends :: "event list \<Rightarrow> string list" where
  "appends tr = List.map_filter (\<lambda>e. case e of AppendEnv text \<Rightarrow> Some text | _ \<Rightarrow> None) tr"

fun op_name :: "event \<Rightarrow> string option" where
  "op_name (Print _) = None"
| "op_name OpenRead = Some ''open_read''"
| "op_name (NewClient _ _) = Some ''TelegramClient''"
| "op_name Start = Some ''start''"
| "op_name IsUserAuthorized = Some ''is_user_authorized''"
| "op_name GetMe = Some ''get_me''"
| "op_name SessionSave = Some ''session.save''"
| "op_name (AppendEnv _) = Some ''open_append''"
| "op_name (GetEntity _) = Some ''get_entity''"
| "op_name Disconnect = Some ''disconnect''"
| "op_name PipInstall = Some ''pip3 install''"

definition operations :: "event list \<Rightarrow> string list" where
  "operations tr = List.map_filter op_name tr"

text \<open>The session string a run stores: the value \<^verbatim>\<open>session.save()\<close> returns when every
  step of the outer \<^verbatim>\<open>try\<close> up to and including the write to the file returns.\<close>

definition saved_session :: "world \<Rightarrow> string option" where
  "saved_session w =
     (case w_start w of Raises _ \<Rightarrow> None | Returns _ \<Rightarrow>
      (case w_is_user_authorized w of Raises _ \<Rightarrow> None | Returns authorized \<Rightarrow>
       if \<not> authorized then None else
       (case w_get_me w of Raises _ \<Rightarrow> None | Returns _ \<Rightarrow>
        (case w_session_save w of Raises _ \<Rightarrow> None | Returns s \<Rightarrow>
         (case w_append w of Raises _ \<Rightarrow> None | Returns _ \<Rightarrow> Some s)))))"

text \<open>Lines 55-56: the events at the start of the outer \<^verbatim>\<open>try\<close>.\<close>

definition try_prefix :: "event list" where
  "try_prefix = [Print (LF # ''Starting authentication...''), Start]"

section \<open>Example inputs\<close>

text \<open>A configuration file with a comment, the three keys and mixed line endings, whose last
  line has no terminator; a user; and a world in which the login succeeds and the backup
  channel cannot be resolved. Of the other files, one differs from the first in a key the
  script never looks up, one has the information separator 0x1C in front of the digit of
  \<^verbatim>\<open>TELEGRAM_API_ID\<close> (which \<^verbatim>\<open>line.strip()\<close> leaves in place inside the line and \<^verbatim>\<open>int\<close>
  rejects), and one has no \<^verbatim>\<open>BACKUP_CHANNEL_ID\<close>.\<close>

definition example_env :: string where
  "example_env = ''# bot settings'' @ [LF] @ ''TELEGRAM_API_ID=12345'' @ [LF] @
                 ''TELEGRAM_API_HASH=0123456789abcdef'' @ [CR, LF] @ ''BACKUP_CHANNEL_ID=-1001234''"

definition example_user :: user where
  "example_user = \<lparr>first_name = ''Ann'', last_name = None, username = Some ''ann'', user_id = 42,
                    premium = Some False\<rparr>"

definition example_world :: world where
  "example_world =
     \<lparr>w_argv = [], w_version_info = (3, 11), w_telethon_version = Some ''1.36.0'',
      w_max_str_digits = 4300, w_int_error = (\<lambda>s. ''invalid literal for int()''),
      w_file = Some example_env, w_read = Returns (),
      w_start = Returns (), w_is_user_authorized = Returns True,
      w_get_me = Returns example_user, w_session_save = Returns ''1BVtsOK'',
      w_append = Returns (), w_get_entity = (\<lambda>n. Raises (Exception ''Cannot find any entity'')),
      w_disconnect = Returns ()\<rparr>"

definition example_env_other :: string where
  "example_env_other = ''LOG_LEVEL=debug'' @ [LF] @ example_env"

definition example_env_separator :: string where
  "example_env_separator =
     ''TELEGRAM_API_ID='' @ [CHR 0x1C] @ ''7'' @ [LF] @ ''TELEGRAM_API_HASH=0123456789abcdef'' @ [LF]"

definition example_env_no_channel :: string where
  "example_env_no_channel =
     ''TELEGRAM_API_HASH=0123456789abcdef'' @ [LF] @ ''TELEGRAM_API_ID=12345'' @ [LF]"

section \<open>Lemmas on strings, lines and bindings\<close>

lemma env_loop_append: "env_loop (xs @ ys) e = env_loop ys (env_loop xs e)"
  by (induction xs arbitrary: e) auto

lemma env_loop_Cons_None: "parse_line l = None \<Longrightarrow> env_loop (l # ls) e = env_loop ls e"
  by simp

lemma env_loop_Cons_Some: "parse_line l = Some (k, v) \<Longrightarrow> env_loop (l # ls) e = env_loop ls (e(k \<mapsto> v))"
  by simp

lemma env_loop_map_of: "env_loop ls e = e ++ map_of (rev (List.map_filter parse_line ls))"
proof (induction ls arbitrary: e)
  case Nil
  then show ?case by (simp add: map_filter_simps)
next
  case (Cons l ls)
  show ?case
  proof (cases "parse_line l")
    case None
    then show ?thesis using Cons by (simp add: map_filter_simps)
  next
    case (Some p)
    obtain k v where p: "p = (k, v)" by (cases p)
    have "env_loop (l # ls) e = env_loop ls (e(k \<mapsto> v))"
      using Some p by (simp only: env_loop_Cons_Some)
    also have "\<dots> = e(k \<mapsto> v) ++ map_of (rev (List.map_filter parse_line ls))"
      by (rule Cons)
    also have "\<dots> = e ++ ([k \<mapsto> v] ++ map_of (rev (List.map_filter parse_line ls)))"
      by (metis map_add_assoc map_add_empty map_add_upd)
    also have "\<dots> = e ++ map_of (rev (List.map_filter parse_line (l # ls)))"
      using Some p by (simp add: map_filter_simps)
    finally show ?thesis .
  qed
qed

lemma strip_id_iff: "strip s = s \<longleftrightarrow> (s = [] \<or> (\<not> isspace (hd s) \<and> \<not> isspace (last s)))"
proof (cases "s = []")
  case True
  then show ?thesis by (simp add: strip_def)
next
  case ne: False
  show ?thesis
  proof (cases "isspace (hd s)")
    case True
    have "length (strip s) \<le> length (dropWhile isspace s)"
      unfolding strip_def by (simp add: length_dropWhile_le del: dropWhile_eq_Nil_conv) 
        (metis length_dropWhile_le length_rev)
    moreover have "length (dropWhile isspace s) < length s"
      using ne True by (cases s) (auto simp: le_imp_less_Suc length_dropWhile_le)
    ultimately have "strip s \<noteq> s" by auto
    then show ?thesis using True ne by simp
  next
    case False
    then have d: "dropWhile isspace s = s" by (simp add: dropWhile_eq_self_iff)
    have "rev (dropWhile isspace (rev s)) = s \<longleftrightarrow> dropWhile isspace (rev s) = rev s"
      by (metis rev_rev_ident)
    also have "\<dots> \<longleftrightarrow> \<not> isspace (last s)"
      using ne by (simp add: dropWhile_eq_self_iff hd_rev)
    finally show ?thesis using False d ne by (simp add: strip_def)
  qed
qed

lemma eq_not_space: "\<not> isspace (CHR ''='')"
  by (simp add: isspace_def)

lemma strip_binding:
  assumes "strip k = k" "strip v = v"
  shows "strip (k @ CHR ''='' # v) = k @ CHR ''='' # v"
proof -
  have "\<not> isspace (hd (k @ CHR ''='' # v))"
    using assms(1) by (cases k) (auto simp: strip_id_iff eq_not_space)
  moreover have "\<not> isspace (last (k @ CHR ''='' # v))"
    using assms(2) by (cases v rule: rev_cases) (auto simp: strip_id_iff eq_not_space)
  ultimately show ?thesis by (simp add: strip_id_iff)
qed

lemma split_eq_binding: "CHR ''='' \<notin> set k \<Longrightarrow> split_eq (k @ CHR ''='' # v) = (k, v)"
proof -
  assume a: "CHR ''='' \<notin> set k"
  then have "\<forall>x\<in>set k. x \<noteq> CHR ''=''" by auto
  then have "takeWhile (\<lambda>c. c \<noteq> CHR ''='') (k @ CHR ''='' # v) = k"
    and "dropWhile (\<lambda>c. c \<noteq> CHR ''='') (k @ CHR ''='' # v) = CHR ''='' # v"
    by (simp_all add: takeWhile_tail)
  then show ?thesis by (simp add: split_eq_def)
qed

lemma isspace_LF: "isspace LF"
  by (simp add: isspace_def LF_def)

lemma strip_LF: "strip (s @ [LF]) = strip s"
proof (cases "\<forall>c\<in>set s. isspace c")
  case True
  then have "dropWhile isspace s = []" "dropWhile isspace (s @ [LF]) = []"
    by (simp_all add: isspace_LF)
  then show ?thesis by (simp only: strip_def)
next
  case False
  then have "dropWhile isspace (s @ [LF]) = dropWhile isspace s @ [LF]"
    by (auto simp: dropWhile_append)
  then show ?thesis by (simp add: strip_def isspace_LF)
qed

lemma parse_line_LF: "parse_line (l @ [LF]) = parse_line l"
  by (simp add: parse_line_def strip_LF)

lemma parse_line_binding:
  assumes "CHR ''='' \<notin> set k" "\<not> startswith k (CHR ''#'')" "strip k = k" "strip v = v"
  shows "parse_line (k @ CHR ''='' # v) = Some (k, v)"
proof -
  have "\<not> startswith (k @ CHR ''='' # v) (CHR ''#'')"
    using assms(2) by (cases k) (simp_all add: startswith_def)
  then show ?thesis
    using assms by (simp add: parse_line_def strip_binding split_eq_binding)
qed

lemma env_loop_unbound:
  "\<forall>l\<in>set ls. map_option fst (parse_line l) \<noteq> Some k \<Longrightarrow> env_loop ls e k = e k"
  by (induction ls arbitrary: e) (auto split: option.splits)

lemma split_lines_no_LF: "LF \<notin> set a \<Longrightarrow> split_lines cur a = (if cur @ a = [] then [] else [cur @ a])"
  by (induction a arbitrary: cur) auto

lemma split_lines_LF: "split_lines cur (a @ LF # b) = split_lines cur (a @ [LF]) @ split_lines [] b"
  by (induction a arbitrary: cur) auto

lemma split_lines_line: "LF \<notin> set a \<Longrightarrow> split_lines cur (a @ [LF]) = [cur @ a @ [LF]]"
  by (induction a arbitrary: cur) auto

lemma un_no_CR: "CR \<notin> set t \<Longrightarrow> universal_newlines t = t"
  by (induction t rule: universal_newlines.induct) auto

lemma un_append:
  "a = [] \<or> last a \<noteq> CR \<or> b = [] \<or> hd b \<noteq> LF \<Longrightarrow>
   universal_newlines (a @ b) = universal_newlines a @ universal_newlines b"
proof (induction a rule: universal_newlines.induct)
  case 1
  then show ?case by simp
next
  case (2 c)
  then show ?case by (cases b) auto
next
  case (3 c d cs)
  then show ?case by (auto split: if_splits)
qed

lemma un_CR_LF:
  "universal_newlines (a @ CR # LF # b) = universal_newlines a @ LF # universal_newlines b"
proof (induction a rule: universal_newlines.induct)
  case 1
  then show ?case by simp
next
  case (2 c)
  then show ?case by (auto simp: CR_def LF_def)
next
  case (3 c d cs)
  then show ?case by (auto split: if_splits)
qed

lemma un_snoc_CR: "universal_newlines (a @ [CR]) = universal_newlines a @ [LF]"
  using un_append [of a "[CR]"] by (simp add: CR_def LF_def)

lemma un_append_LF:
  "universal_newlines (c @ LF # t) =
     (if c \<noteq> [] \<and> last c = CR then universal_newlines c @ universal_newlines t
      else universal_newlines c @ LF # universal_newlines t)"
proof (cases "c \<noteq> [] \<and> last c = CR")
  case True
  then obtain a where a: "c = a @ [CR]" by (metis append_butlast_last_id)
  show ?thesis using True by (simp add: a un_CR_LF un_snoc_CR)
next
  case False
  then have "universal_newlines (c @ LF # t) = universal_newlines c @ universal_newlines (LF # t)"
    by (intro un_append) auto
  moreover have "universal_newlines (LF # t) = LF # universal_newlines t"
    by (cases t) (auto simp: CR_def LF_def)
  ultimately show ?thesis using False by auto
qed

lemma readlines_append_LF:
  "readlines (c @ LF # t) =
     (if c \<noteq> [] \<and> last c = CR then readlines c
      else split_lines [] (universal_newlines c @ [LF])) @ readlines t"
proof (cases "c \<noteq> [] \<and> last c = CR")
  case True
  then obtain a where a: "c = a @ [CR]" by (metis append_butlast_last_id)
  have "readlines (c @ LF # t) = split_lines [] (universal_newlines a @ LF # universal_newlines t)"
    by (simp add: readlines_def a un_CR_LF)
  also have "\<dots> = split_lines [] (universal_newlines a @ [LF]) @ split_lines [] (universal_newlines t)"
    by (rule split_lines_LF)
  finally show ?thesis using True by (simp add: readlines_def a un_snoc_CR)
next
  case False
  then have "universal_newlines (c @ LF # t) = universal_newlines c @ LF # universal_newlines t"
    by (simp only: un_append_LF if_False)
  then have "readlines (c @ LF # t) =
      split_lines [] (universal_newlines c @ [LF]) @ split_lines [] (universal_newlines t)"
    using split_lines_LF [of "[]" "universal_newlines c" "universal_newlines t"]
    by (simp only: readlines_def)
  then show ?thesis using False by (simp only: readlines_def if_False)
qed

lemma parse_line_blank: "parse_line [LF] = None" "parse_line [] = None"
  by (simp_all add: parse_line_def strip_def isspace_LF)

lemma map_filter_split_lines_LF:
  "List.map_filter parse_line (split_lines cur (x @ [LF])) = List.map_filter parse_line (split_lines cur x)"
proof (induction x arbitrary: cur)
  case Nil
  then show ?case
    using parse_line_LF [of cur] by (simp add: map_filter_simps parse_line_blank)
next
  case (Cons c cs)
  then show ?case by (simp add: map_filter_simps split: option.splits)
qed

lemma map_filter_append: "List.map_filter f (xs @ ys) = List.map_filter f xs @ List.map_filter f ys"
  by (simp add: List.map_filter_def)

lemma bindings_append_LF: "bindings (c @ LF # t) = bindings c @ bindings t"
  unfolding bindings_def readlines_append_LF map_filter_append
  by (simp add: map_filter_split_lines_LF readlines_def)

lemma bindings_line:
  assumes "CR \<notin> set l" "LF \<notin> set l"
  shows "bindings (l @ [LF]) = (case parse_line l of None \<Rightarrow> [] | Some p \<Rightarrow> [p])"
proof -
  have "CR \<notin> set (l @ [LF])"
    using assms by (simp add: CR_def LF_def)
  then have "universal_newlines (l @ [LF]) = l @ [LF]"
    by (rule un_no_CR)
  then have "readlines (l @ [LF]) = [l @ [LF]]"
    using assms split_lines_line [of l "[]"] by (simp add: readlines_def)
  then show ?thesis
    by (simp add: bindings_def map_filter_simps parse_line_LF split: option.splits)
qed

lemma chomp_split_lines_LF:
  "LF \<notin> set cur \<Longrightarrow>
   map chomp (split_lines cur (x @ [LF])) =
     map chomp (split_lines cur x) @ (if cur @ x = [] \<or> (x \<noteq> [] \<and> last x = LF) then [[]] else [])"
proof (induction x arbitrary: cur)
  case Nil
  then show ?case by (cases cur rule: rev_cases) (auto simp: chomp_def butlast_append)
next
  case (Cons c cs)
  show ?case
  proof (cases "c = LF")
    case True
    then show ?thesis using Cons.IH [of "[]"] by (auto simp: chomp_def)
  next
    case False
    then show ?thesis using Cons.IH [of "cur @ [c]"] Cons.prems by auto
  qed
qed

lemma content_lines_append_LF:
  "take (length (content_lines c)) (content_lines (c @ LF # t)) = content_lines c"
proof (cases "c \<noteq> [] \<and> last c = CR")
  case True
  then show ?thesis by (simp add: content_lines_def readlines_append_LF)
next
  case False
  have "map chomp (split_lines [] (universal_newlines c @ [LF])) =
        map chomp (split_lines [] (universal_newlines c)) @
          (if universal_newlines c = [] \<or> last (universal_newlines c) = LF then [[]] else [])"
    using chomp_split_lines_LF [of "[]" "universal_newlines c"] by auto
  moreover have "readlines (c @ LF # t) = split_lines [] (universal_newlines c @ [LF]) @ readlines t"
    using False by (simp only: readlines_append_LF if_False)
  ultimately show ?thesis
    by (simp add: content_lines_def readlines_def)
qed

lemma map_of_rev_last:
  "map_of (rev ps) k =
     (case filter (\<lambda>p. fst p = k) ps of [] \<Rightarrow> None | q # qs \<Rightarrow> Some (snd (last (q # qs))))"
proof (induction ps rule: rev_induct)
  case Nil
  then show ?case by simp
next
  case (snoc p ps)
  then show ?case by (cases p) (auto split: list.splits)
qed

lemma parse_line_None_iff:
  "parse_line raw = None \<longleftrightarrow>
     strip raw = [] \<or> startswith (strip raw) (CHR ''#'') \<or> CHR ''='' \<notin> set (strip raw)"
  by (auto simp: parse_line_def Let_def)

section \<open>Lemmas on runs\<close>

lemma try_file:
  "fst (snd (setup_session_try w env_vars)) =
     (case saved_session w of None \<Rightarrow> w_file w | Some s \<Rightarrow> append_file (w_file w) (session_line s))"
  by (simp add: setup_session_try_def saved_session_def Let_def split: outcome.splits)

lemma appends_simps:
  "appends [] = []"
  "appends (Print s # tr) = appends tr"
  "appends (AppendEnv t # tr) = t # appends tr"
  "appends (Start # tr) = appends tr"
  "appends (IsUserAuthorized # tr) = appends tr"
  "appends (GetMe # tr) = appends tr"
  "appends (SessionSave # tr) = appends tr"
  "appends (GetEntity n # tr) = appends tr"
  "appends (Disconnect # tr) = appends tr"
  "appends (OpenRead # tr) = appends tr"
  "appends (NewClient i h # tr) = appends tr"
  "appends (PipInstall # tr) = appends tr"
  "appends (xs @ ys) = appends xs @ appends ys"
  by (simp_all add: appends_def map_filter_simps map_filter_append)

lemma appends_user_info: "appends (user_info me) = []"
  by (simp add: user_info_def appends_simps)

lemma appends_channel: "appends (fst (backup_channel_test w env_vars)) = []"
  by (simp add: backup_channel_test_def channel_warning_def Let_def appends_simps
      split: option.splits outcome.splits exn.splits)

lemma try_appends:
  "appends (fst (setup_session_try w env_vars)) =
     (case w_start w of Raises _ \<Rightarrow> [] | Returns _ \<Rightarrow>
      (case w_is_user_authorized w of Raises _ \<Rightarrow> [] | Returns authorized \<Rightarrow>
       if \<not> authorized then [] else
       (case w_get_me w of Raises _ \<Rightarrow> [] | Returns _ \<Rightarrow>
        (case w_session_save w of Raises _ \<Rightarrow> [] | Returns s \<Rightarrow> [session_line s]))))"
  by (simp add: setup_session_try_def Let_def appends_simps appends_user_info appends_channel
      split: outcome.splits)

lemma main_simps:
  "final_file (main w) =
     (if version_lt (w_version_info w) (3, 6) \<or> w_telethon_version w = None then w_file w
      else final_file (setup_session w))"
  "status (main w) =
     (if version_lt (w_version_info w) (3, 6) then SysExit 1
      else if w_telethon_version w = None then SysExit 0
      else status (setup_session w))"
  by (auto simp: main_def Let_def split: option.splits)

lemma credentials_Inl_iff:
  "(\<exists>m. credentials lim env_vars = Inl m) \<longleftrightarrow>
     py_int lim (env_get env_vars ''TELEGRAM_API_ID'' []) = None \<or>
     py_int lim (env_get env_vars ''TELEGRAM_API_ID'' []) = Some 0 \<or>
     env_get env_vars ''TELEGRAM_API_HASH'' [] = []"
  by (auto simp: credentials_def Let_def split: option.splits)

lemma saved_session_SomeD:
  "saved_session w = Some s \<Longrightarrow>
     w_start w = Returns () \<and> w_is_user_authorized w = Returns True \<and> (\<exists>me. w_get_me w = Returns me) \<and>
     w_session_save w = Returns s \<and> w_append w = Returns ()"
  by (auto simp: saved_session_def split: outcome.splits if_splits)

lemma parse_env_map_of: "parse_env content = map_of (rev (bindings content))"
  by (simp add: parse_env_def bindings_def env_loop_map_of)

lemma append_file_prefix:
  "append_file (Some old) (session_line s) = Some (old @ LF # ''USER_SESSION_STRING='' @ s @ [LF])"
  by (simp add: append_file_def session_line_def)

lemma count_OpenRead_try: "count_list (fst (setup_session_try w env_vars)) OpenRead = 0"
  by (simp add: setup_session_try_def Let_def user_info_def backup_channel_test_def channel_warning_def
      split: outcome.splits option.splits exn.splits)

lemma main_trace:
  "trace (main w) =
     (if version_lt (w_version_info w) (3, 6) then [Print ''Python 3.6+ is required'']
      else case w_telethon_version w of
        None \<Rightarrow> [Print ''Telethon not installed. Installing...'', PipInstall,
                  Print ''Telethon installed. Please run the script again.'']
      | Some v \<Rightarrow> Print (''Telethon version: '' @ v) # trace (setup_session w))"
  by (simp add: main_def Let_def split: option.splits)

lemma backup_channel_test_argv:
  "backup_channel_test (w\<lparr>w_argv := argv\<rparr>) env_vars = backup_channel_test w env_vars"
  by (simp add: backup_channel_test_def Let_def cong: option.case_cong outcome.case_cong)

lemma setup_session_try_argv:
  "setup_session_try (w\<lparr>w_argv := argv\<rparr>) env_vars = setup_session_try w env_vars"
  by (simp add: setup_session_try_def backup_channel_test_argv Let_def split: outcome.splits)

lemma setup_session_argv: "setup_session (w\<lparr>w_argv := argv\<rparr>) = setup_session w"
  by (simp add: setup_session_def setup_session_try_argv finally_status_def Let_def
      cong: prod.case_cong sum.case_cong)

lemma main_argv: "main (w\<lparr>w_argv := argv\<rparr>) = main w"
  by (simp add: main_def setup_session_argv cong: option.case_cong)

lemma setup_session_nofile:
  "w_file w = None \<Longrightarrow>
   setup_session w = \<lparr>trace = banner @ [OpenRead, Print ''.env file not found!''],
                      final_file = None, status = SysExit 1\<rparr>"
  by (simp add: setup_session_def load_env_def)

lemma setup_session_unreadable:
  "w_file w = Some content \<Longrightarrow> w_read w = Raises e \<Longrightarrow>
   setup_session w = \<lparr>trace = banner @ [OpenRead], final_file = w_file w, status = Uncaught e\<rparr>"
  by (simp add: setup_session_def load_env_def)

lemma setup_session_bad_credentials:
  "w_file w = Some content \<Longrightarrow> w_read w = Returns () \<Longrightarrow>
   credentials (w_max_str_digits w) (parse_env content) = Inl m \<Longrightarrow>
   setup_session w = \<lparr>trace = banner @ [OpenRead, Print m], final_file = w_file w, status = SysExit 1\<rparr>"
  by (simp add: setup_session_def load_env_def)

lemma setup_session_credentials:
  "w_file w = Some content \<Longrightarrow> w_read w = Returns () \<Longrightarrow>
   credentials (w_max_str_digits w) (parse_env content) = Inr (api_id, api_hash) \<Longrightarrow>
   setup_session w =
     \<lparr>trace = banner @
        [OpenRead, Print (''Using API_ID: '' @ str_int api_id),
         Print (''Using API_HASH: '' @ take 8 api_hash @ ''...''), NewClient api_id api_hash] @
        fst (setup_session_try w (parse_env content)) @
        handlers (snd (snd (setup_session_try w (parse_env content)))) @ [Disconnect],
      final_file = fst (snd (setup_session_try w (parse_env content))),
      status = finally_status w (snd (snd (setup_session_try w (parse_env content))))\<rparr>"
  by (simp add: setup_session_def load_env_def Let_def)

lemma setup_session_cases:
  obtains (nofile) "w_file w = None"
      "setup_session w = \<lparr>trace = banner @ [OpenRead, Print ''.env file not found!''],
                          final_file = None, status = SysExit 1\<rparr>"
  | (unreadable) content e where "w_file w = Some content" "w_read w = Raises e"
      "setup_session w = \<lparr>trace = banner @ [OpenRead], final_file = w_file w, status = Uncaught e\<rparr>"
  | (bad) content m where "w_file w = Some content" "w_read w = Returns ()"
      "credentials (w_max_str_digits w) (parse_env content) = Inl m"
      "setup_session w = \<lparr>trace = banner @ [OpenRead, Print m], final_file = w_file w,
                          status = SysExit 1\<rparr>"
  | (valid) content api_id api_hash where "w_file w = Some content" "w_read w = Returns ()"
      "credentials (w_max_str_digits w) (parse_env content) = Inr (api_id, api_hash)"
      "setup_session w =
         \<lparr>trace = banner @
            [OpenRead, Print (''Using API_ID: '' @ str_int api_id),
             Print (''Using API_HASH: '' @ take 8 api_hash @ ''...''), NewClient api_id api_hash] @
            fst (setup_session_try w (parse_env content)) @
            handlers (snd (snd (setup_session_try w (parse_env content)))) @ [Disconnect],
          final_file = fst (snd (setup_session_try w (parse_env content))),
          status = finally_status w (snd (snd (setup_session_try w (parse_env content))))\<rparr>"
proof (cases "w_file w")
  case None
  then show ?thesis by (intro nofile setup_session_nofile)
next
  case (Some content)
  show ?thesis
  proof (cases "w_read w")
    case (Raises e)
    with Some show ?thesis by (intro unreadable [of content e] setup_session_unreadable)
  next
    case (Returns u)
    then have rd: "w_read w = Returns ()" by simp
    show ?thesis
    proof (cases "credentials (w_max_str_digits w) (parse_env content)")
      case (Inl m)
      with Some rd show ?thesis
        by (intro bad [of content m] setup_session_bad_credentials)
    next
      case (Inr cr)
      obtain api_id api_hash where cr: "cr = (api_id, api_hash)" by (cases cr)
      from Some rd Inr [unfolded cr] show ?thesis
        by (intro valid [of content api_id api_hash] setup_session_credentials)
    qed
  qed
qed

lemma setup_session_file:
  "final_file (setup_session w) =
     (case w_file w of None \<Rightarrow> None
      | Some content \<Rightarrow>
          (case w_read w of Raises _ \<Rightarrow> w_file w
           | Returns _ \<Rightarrow>
          (case credentials (w_max_str_digits w) (parse_env content) of
             Inl _ \<Rightarrow> w_file w
           | Inr _ \<Rightarrow> (case saved_session w of None \<Rightarrow> w_file w
                       | Some s \<Rightarrow> append_file (w_file w) (session_line s)))))"
  by (cases rule: setup_session_cases [of w]) (simp_all add: try_file)

lemma handlers_prints: "appends (handlers x) = []" "count_list (handlers x) OpenRead = 0"
  by (simp_all add: handlers_def appends_simps split: option.splits exn.splits)

lemma banner_prints: "appends banner = []" "count_list banner OpenRead = 0"
  by (simp_all add: banner_def appends_simps)

lemma try_appends_le: "length (appends (fst (setup_session_try w env_vars))) \<le> 1"
  by (simp add: try_appends split: outcome.splits)

lemma setup_session_appends: "length (appends (trace (setup_session w))) \<le> 1"
  using try_appends_le
  by (cases rule: setup_session_cases [of w])
    (simp_all add: appends_simps handlers_prints banner_prints)

lemma setup_session_reads: "count_list (trace (setup_session w)) OpenRead = 1"
  by (cases rule: setup_session_cases [of w])
    (simp_all add: count_OpenRead_try handlers_prints banner_prints)

lemma try_start_raises:
  "w_start w = Raises e \<Longrightarrow> setup_session_try w env_vars = (try_prefix, w_file w, Some e)"
  by (simp add: setup_session_try_def try_prefix_def)

lemma try_authorized_raises:
  "w_start w = Returns () \<Longrightarrow> w_is_user_authorized w = Raises e \<Longrightarrow>
   setup_session_try w env_vars = (try_prefix @ [IsUserAuthorized], w_file w, Some e)"
  by (simp add: setup_session_try_def try_prefix_def)

lemma try_not_authorized:
  "w_start w = Returns () \<Longrightarrow> w_is_user_authorized w = Returns False \<Longrightarrow>
   setup_session_try w env_vars =
     (try_prefix @ [IsUserAuthorized, Print ''Authentication failed''], w_file w, None)"
  by (simp add: setup_session_try_def try_prefix_def)

lemma try_get_me_raises:
  "w_start w = Returns () \<Longrightarrow> w_is_user_authorized w = Returns True \<Longrightarrow> w_get_me w = Raises e \<Longrightarrow>
   setup_session_try w env_vars =
     (try_prefix @ [IsUserAuthorized, Print ''Authentication successful!'', GetMe], w_file w, Some e)"
  by (simp add: setup_session_try_def try_prefix_def)

lemma try_save_raises:
  "w_start w = Returns () \<Longrightarrow> w_is_user_authorized w = Returns True \<Longrightarrow> w_get_me w = Returns me \<Longrightarrow>
   w_session_save w = Raises e \<Longrightarrow>
   setup_session_try w env_vars =
     (try_prefix @ [IsUserAuthorized, Print ''Authentication successful!'', GetMe] @ user_info me @
        [SessionSave], w_file w, Some e)"
  by (simp add: setup_session_try_def try_prefix_def)

lemma try_append_raises:
  "w_start w = Returns () \<Longrightarrow> w_is_user_authorized w = Returns True \<Longrightarrow> w_get_me w = Returns me \<Longrightarrow>
   w_session_save w = Returns s \<Longrightarrow> w_append w = Raises e \<Longrightarrow>
   setup_session_try w env_vars =
     (try_prefix @ [IsUserAuthorized, Print ''Authentication successful!'', GetMe] @ user_info me @
        [SessionSave, AppendEnv (session_line s)], w_file w, Some e)"
  by (simp add: setup_session_try_def try_prefix_def)

lemma try_saved:
  "w_start w = Returns () \<Longrightarrow> w_is_user_authorized w = Returns True \<Longrightarrow> w_get_me w = Returns me \<Longrightarrow>
   w_session_save w = Returns s \<Longrightarrow> w_append w = Returns () \<Longrightarrow>
   setup_session_try w env_vars =
     (try_prefix @ [IsUserAuthorized, Print ''Authentication successful!'', GetMe] @ user_info me @
        [SessionSave, AppendEnv (session_line s),
         Print (LF # ''Session string saved to .env file''),
         Print ''Setup completed! You can now upload large files.''] @
        fst (backup_channel_test w env_vars),
      append_file (w_file w) (session_line s), snd (backup_channel_test w env_vars))"
  by (simp add: setup_session_try_def try_prefix_def Let_def)

lemma GetEntity_user_info: "GetEntity n \<notin> set (user_info me)"
  by (simp add: user_info_def)

lemma GetEntity_channel:
  "GetEntity n \<in> set (fst (backup_channel_test w env_vars)) \<Longrightarrow>
   \<exists>b. env_vars ''BACKUP_CHANNEL_ID'' = Some b \<and> b \<noteq> [] \<and> py_int (w_max_str_digits w) b = Some n"
  by (auto simp: backup_channel_test_def channel_warning_def env_get_def Let_def
      split: option.splits outcome.splits exn.splits if_splits)

lemma try_cases:
  obtains (start) e where "w_start w = Raises e"
  | (authorized) e where "w_start w = Returns ()" "w_is_user_authorized w = Raises e"
  | (refused) "w_start w = Returns ()" "w_is_user_authorized w = Returns False"
  | (get_me) e where "w_start w = Returns ()" "w_is_user_authorized w = Returns True"
      "w_get_me w = Raises e"
  | (save) me e where "w_start w = Returns ()" "w_is_user_authorized w = Returns True"
      "w_get_me w = Returns me" "w_session_save w = Raises e"
  | (append) me s e where "w_start w = Returns ()" "w_is_user_authorized w = Returns True"
      "w_get_me w = Returns me" "w_session_save w = Returns s" "w_append w = Raises e"
  | (saved) me s where "w_start w = Returns ()" "w_is_user_authorized w = Returns True"
      "w_get_me w = Returns me" "w_session_save w = Returns s" "w_append w = Returns ()"
proof (cases "w_start w")
  case (Raises e)
  then show ?thesis by (rule start)
next
  case r1: (Returns u)
  then have s1: "w_start w = Returns ()" by simp
  show ?thesis
  proof (cases "w_is_user_authorized w")
    case (Raises e)
    with s1 show ?thesis by (rule authorized)
  next
    case r2: (Returns a)
    show ?thesis
    proof (cases a)
      case False
      with s1 r2 show ?thesis by (auto intro: refused)
    next
      case True
      with r2 have s2: "w_is_user_authorized w = Returns True" by simp
      show ?thesis
      proof (cases "w_get_me w")
        case (Raises e)
        with s1 s2 show ?thesis by (rule get_me)
      next
        case r3: (Returns me)
        show ?thesis
        proof (cases "w_session_save w")
          case (Raises e)
          with s1 s2 r3 show ?thesis by (rule save)
        next
          case r4: (Returns s)
          show ?thesis
          proof (cases "w_append w")
            case (Raises e)
            with s1 s2 r3 r4 show ?thesis by (rule append)
          next
            case (Returns u)
            then have "w_append w = Returns ()" by simp
            with s1 s2 r3 r4 show ?thesis by (rule saved)
          qed
        qed
      qed
    qed
  qed
qed

lemma GetEntity_banner: "GetEntity n \<notin> set banner"
  by (simp add: banner_def)

lemma GetEntity_handlers: "GetEntity n \<notin> set (handlers x)"
  by (simp add: handlers_def split: option.splits exn.splits)

lemma GetEntity_try_prefix: "GetEntity n \<notin> set try_prefix"
  by (simp add: try_prefix_def)

lemma takeWhile_mem:
  assumes "x \<noteq> y" "y \<notin> set xs"
  shows "x \<in> set (takeWhile (\<lambda>e. e \<noteq> y) (xs @ x # ys))"
proof -
  have "takeWhile (\<lambda>e. e \<noteq> y) (xs @ x # ys) = xs @ takeWhile (\<lambda>e. e \<noteq> y) (x # ys)"
    using assms(2) by (intro takeWhile_append2) auto
  then show ?thesis using assms(1) by simp
qed

lemma credentials_cong:
  "env_vars ''TELEGRAM_API_ID'' = env_vars' ''TELEGRAM_API_ID'' \<Longrightarrow>
   env_vars ''TELEGRAM_API_HASH'' = env_vars' ''TELEGRAM_API_HASH'' \<Longrightarrow>
   credentials lim env_vars = credentials lim env_vars'"
  by (simp add: credentials_def env_get_def Let_def split: option.splits)

lemma backup_channel_test_cong:
  "env_vars ''BACKUP_CHANNEL_ID'' = env_vars' ''BACKUP_CHANNEL_ID'' \<Longrightarrow>
   backup_channel_test w env_vars = backup_channel_test w env_vars'"
  by (simp add: backup_channel_test_def env_get_def)

lemma backup_channel_test_file:
  "backup_channel_test (w\<lparr>w_file := f\<rparr>) env_vars = backup_channel_test w env_vars"
  by (simp add: backup_channel_test_def Let_def cong: option.case_cong outcome.case_cong)

lemma try_env_cong:
  "env_vars ''BACKUP_CHANNEL_ID'' = env_vars' ''BACKUP_CHANNEL_ID'' \<Longrightarrow>
   setup_session_try w env_vars = setup_session_try w env_vars'"
proof -
  assume "env_vars ''BACKUP_CHANNEL_ID'' = env_vars' ''BACKUP_CHANNEL_ID''"
  then have "backup_channel_test w env_vars = backup_channel_test w env_vars'"
    by (rule backup_channel_test_cong)
  then show ?thesis
    by (simp add: setup_session_try_def Let_def split: outcome.splits)
qed

lemma try_trace_file:
  "fst (setup_session_try (w\<lparr>w_file := f\<rparr>) env_vars) = fst (setup_session_try w env_vars)"
  "snd (snd (setup_session_try (w\<lparr>w_file := f\<rparr>) env_vars)) = snd (snd (setup_session_try w env_vars))"
  by (simp_all add: setup_session_try_def backup_channel_test_file Let_def split: outcome.splits)

lemma finally_status_file: "finally_status (w\<lparr>w_file := f\<rparr>) x = finally_status w x"
  by (simp add: finally_status_def)

lemma setup_session_on_file:
  "trace (setup_session (w\<lparr>w_file := Some content\<rparr>)) =
     (case w_read w of
        Raises e \<Rightarrow> banner @ [OpenRead]
      | Returns _ \<Rightarrow>
     (case credentials (w_max_str_digits w) (parse_env content) of
        Inl m \<Rightarrow> banner @ [OpenRead, Print m]
      | Inr cr \<Rightarrow>
          banner @
          [OpenRead, Print (''Using API_ID: '' @ str_int (fst cr)),
           Print (''Using API_HASH: '' @ take 8 (snd cr) @ ''...''), NewClient (fst cr) (snd cr)] @
          fst (setup_session_try w (parse_env content)) @
          handlers (snd (snd (setup_session_try w (parse_env content)))) @ [Disconnect]))"
  "status (setup_session (w\<lparr>w_file := Some content\<rparr>)) =
     (case w_read w of
        Raises e \<Rightarrow> Uncaught e
      | Returns _ \<Rightarrow>
     (case credentials (w_max_str_digits w) (parse_env content) of
        Inl m \<Rightarrow> SysExit 1
      | Inr cr \<Rightarrow> finally_status w (snd (snd (setup_session_try w (parse_env content))))))"
proof -
  let ?w = "w\<lparr>w_file := Some content\<rparr>"
  have f: "w_file ?w = Some content" "w_read ?w = w_read w"
    "w_max_str_digits ?w = w_max_str_digits w"
    by simp_all
  show "trace (setup_session ?w) =
     (case w_read w of
        Raises e \<Rightarrow> banner @ [OpenRead]
      | Returns _ \<Rightarrow>
     (case credentials (w_max_str_digits w) (parse_env content) of
        Inl m \<Rightarrow> banner @ [OpenRead, Print m]
      | Inr cr \<Rightarrow>
          banner @
          [OpenRead, Print (''Using API_ID: '' @ str_int (fst cr)),
           Print (''Using API_HASH: '' @ take 8 (snd cr) @ ''...''), NewClient (fst cr) (snd cr)] @
          fst (setup_session_try w (parse_env content)) @
          handlers (snd (snd (setup_session_try w (parse_env content)))) @ [Disconnect]))"
    by (cases rule: setup_session_cases [of ?w])
      (simp_all add: try_trace_file del: world.simps)
  show "status (setup_session ?w) =
     (case w_read w of
        Raises e \<Rightarrow> Uncaught e
      | Returns _ \<Rightarrow>
     (case credentials (w_max_str_digits w) (parse_env content) of
        Inl m \<Rightarrow> SysExit 1
      | Inr cr \<Rightarrow> finally_status w (snd (snd (setup_session_try w (parse_env content))))))"
    by (cases rule: setup_session_cases [of ?w])
      (simp_all add: try_trace_file finally_status_file del: world.simps)
qed

lemma main_on_file:
  "trace (main (w\<lparr>w_file := Some content\<rparr>)) =
     (if version_lt (w_version_info w) (3, 6) then [Print ''Python 3.6+ is required'']
      else case w_telethon_version w of
        None \<Rightarrow> [Print ''Telethon not installed. Installing...'', PipInstall,
                  Print ''Telethon installed. Please run the script again.'']
      | Some v \<Rightarrow> Print (''Telethon version: '' @ v) # trace (setup_session (w\<lparr>w_file := Some content\<rparr>)))"
  "status (main (w\<lparr>w_file := Some content\<rparr>)) =
     (if version_lt (w_version_info w) (3, 6) then SysExit 1
      else if w_telethon_version w = None then SysExit 0
      else status (setup_session (w\<lparr>w_file := Some content\<rparr>)))"
  by (simp_all add: main_trace main_simps)

lemma strip_prefix_rstrip:
  assumes "a \<noteq> []" "\<not> isspace (hd a)" "\<not> isspace (last a)"
  shows "strip (a @ s) = a @ rstrip s"
proof -
  have d: "dropWhile isspace (a @ s) = a @ s"
    using assms by (simp add: dropWhile_eq_self_iff)
  have "dropWhile isspace (rev s @ rev a) = dropWhile isspace (rev s) @ rev a"
  proof (cases "\<forall>c\<in>set (rev s). isspace c")
    case True
    then have "dropWhile isspace (rev s) = []" by simp
    moreover have "dropWhile isspace (rev s @ rev a) = dropWhile isspace (rev a)"
      using True by (simp add: dropWhile_append)
    moreover have "dropWhile isspace (rev a) = rev a"
      using assms by (simp add: dropWhile_eq_self_iff hd_rev)
    ultimately show ?thesis by simp
  next
    case False
    then show ?thesis by (auto simp: dropWhile_append)
  qed
  then show ?thesis
    by (simp add: strip_def rstrip_def d)
qed

lemma parse_session_binding:
  "parse_line (''USER_SESSION_STRING='' @ s) = Some (''USER_SESSION_STRING'', rstrip s)"
proof -
  have "strip (''USER_SESSION_STRING='' @ s) = ''USER_SESSION_STRING='' @ rstrip s"
    by (rule strip_prefix_rstrip) (simp_all add: isspace_def)
  then have "strip (''USER_SESSION_STRING='' @ s) = ''USER_SESSION_STRING'' @ CHR ''='' # rstrip s"
    by simp
  moreover have "split_eq (''USER_SESSION_STRING'' @ CHR ''='' # rstrip s) = (''USER_SESSION_STRING'', rstrip s)"
    by (rule split_eq_binding) simp
  moreover have "\<not> startswith (''USER_SESSION_STRING'' @ CHR ''='' # rstrip s) (CHR ''#'')"
    by (simp add: startswith_def)
  moreover have "''USER_SESSION_STRING'' @ CHR ''='' # rstrip s \<noteq> []"
    "CHR ''='' \<in> set (''USER_SESSION_STRING'' @ CHR ''='' # rstrip s)"
    by simp_all
  ultimately show ?thesis
    unfolding parse_line_def Let_def by (simp only: simp_thms if_True)
qed

lemma bindings_session_line:
  assumes "CR \<notin> set s" "LF \<notin> set s"
  shows "bindings (content @ session_line s) = bindings content @ [(''USER_SESSION_STRING'', rstrip s)]"
proof -
  have "CR \<notin> set (''USER_SESSION_STRING='' @ s)" "LF \<notin> set (''USER_SESSION_STRING='' @ s)"
    using assms by (simp_all add: CR_def LF_def)
  then have "bindings ((''USER_SESSION_STRING='' @ s) @ [LF]) =
      (case parse_line (''USER_SESSION_STRING='' @ s) of None \<Rightarrow> [] | Some p \<Rightarrow> [p])"
    by (rule bindings_line)
  then have "bindings ((''USER_SESSION_STRING='' @ s) @ [LF]) = [(''USER_SESSION_STRING'', rstrip s)]"
    by (simp only: parse_session_binding option.case)
  moreover have "content @ session_line s = content @ LF # (''USER_SESSION_STRING='' @ s) @ [LF]"
    by (simp add: session_line_def)
  ultimately show ?thesis
    by (simp only: bindings_append_LF)
qed

lemma try_starts:
  "\<exists>rest. fst (setup_session_try w env_vars) =
     Print (LF # ''Starting authentication...'') # Start # rest"
  by (cases rule: try_cases [of w])
    (simp_all add: try_start_raises try_authorized_raises try_not_authorized
      try_get_me_raises try_save_raises try_append_raises try_saved try_prefix_def)

lemma Start_banner: "Start \<notin> set banner"
  by (simp add: banner_def)

lemma before_start_on_file:
  "takeWhile (\<lambda>e. e \<noteq> Start) (trace (setup_session (w\<lparr>w_file := Some content\<rparr>))) =
     (case w_read w of
        Raises e \<Rightarrow> banner @ [OpenRead]
      | Returns _ \<Rightarrow>
     (case credentials (w_max_str_digits w) (parse_env content) of
        Inl m \<Rightarrow> banner @ [OpenRead, Print m]
      | Inr cr \<Rightarrow>
          banner @
          [OpenRead, Print (''Using API_ID: '' @ str_int (fst cr)),
           Print (''Using API_HASH: '' @ take 8 (snd cr) @ ''...''), NewClient (fst cr) (snd cr),
           Print (LF # ''Starting authentication...'')]))"
    (is ?before)
  "Start \<in> set (trace (setup_session (w\<lparr>w_file := Some content\<rparr>))) \<longleftrightarrow>
     w_read w = Returns () \<and> (\<exists>cr. credentials (w_max_str_digits w) (parse_env content) = Inr cr)"
    (is ?called)
proof -
  obtain rest where rest: "fst (setup_session_try w (parse_env content)) =
      Print (LF # ''Starting authentication...'') # Start # rest"
    using try_starts by blast
  have b: "\<And>xs. takeWhile (\<lambda>e. e \<noteq> Start) (banner @ xs) = banner @ takeWhile (\<lambda>e. e \<noteq> Start) xs"
    using Start_banner by (intro takeWhile_append2) auto
  show ?before
    by (cases "w_read w"; cases "credentials (w_max_str_digits w) (parse_env content)")
      (simp_all add: setup_session_on_file rest b)
  show ?called
    using Start_banner
    by (cases "w_read w"; cases "credentials (w_max_str_digits w) (parse_env content)")
      (auto simp: setup_session_on_file rest)
qed

lemma rstrip_id: "strip s = s \<Longrightarrow> rstrip s = s"
proof -
  assume "strip s = s"
  then have "s = [] \<or> \<not> isspace (last s)" by (auto simp: strip_id_iff)
  then have "dropWhile isspace (rev s) = rev s"
    by (auto simp: dropWhile_eq_self_iff hd_rev)
  then show ?thesis by (simp add: rstrip_def)
qed

lemma operations_simps:
  "operations [] = []"
  "operations (e # tr) = (case op_name e of None \<Rightarrow> operations tr | Some n \<Rightarrow> n # operations tr)"
  "operations (xs @ ys) = operations xs @ operations ys"
  by (simp_all add: operations_def map_filter_simps map_filter_append split: option.splits)

lemma operations_prints:
  "operations banner = []" "operations (handlers x) = []" "operations (user_info me) = []"
  "operations (channel_warning e) = []" "operations try_prefix = [''start'']"
  by (simp_all add: operations_simps banner_def handlers_def user_info_def channel_warning_def
      try_prefix_def split: option.splits exn.splits)

lemma operations_channel:
  "operations (fst (backup_channel_test w env_vars)) = [] \<or>
   operations (fst (backup_channel_test w env_vars)) = [''get_entity'']"
  by (simp add: backup_channel_test_def Let_def operations_simps operations_prints
      split: option.splits outcome.splits exn.splits)

lemma operations_try:
  "operations (fst (setup_session_try w env_vars)) \<in>
     {[''start''], [''start'', ''is_user_authorized''],
      [''start'', ''is_user_authorized'', ''get_me''],
      [''start'', ''is_user_authorized'', ''get_me'', ''session.save''],
      [''start'', ''is_user_authorized'', ''get_me'', ''session.save'', ''open_append''],
      [''start'', ''is_user_authorized'', ''get_me'', ''session.save'', ''open_append'',
       ''get_entity'']}"
  using operations_channel [of w env_vars]
  by (cases rule: try_cases [of w])
    (auto simp: try_start_raises try_authorized_raises try_not_authorized
      try_get_me_raises try_save_raises try_append_raises try_saved
      operations_simps operations_prints)

lemma setup_session_operations: "distinct (operations (trace (setup_session w)))"
proof (cases "w_file w")
  case None
  then show ?thesis
    by (simp add: setup_session_nofile operations_simps operations_prints)
next
  case (Some content)
  show ?thesis
  proof (cases "w_read w")
    case (Raises e)
    then show ?thesis
      using Some by (simp add: setup_session_unreadable operations_simps operations_prints)
  next
    case (Returns u)
    then have rd: "w_read w = Returns ()" by simp
    show ?thesis
    proof (cases "credentials (w_max_str_digits w) (parse_env content)")
      case (Inl m)
      then show ?thesis
        using Some rd
        by (simp add: setup_session_bad_credentials operations_simps operations_prints)
    next
      case (Inr cr)
      obtain api_id api_hash where cr: "cr = (api_id, api_hash)" by (cases cr)
      show ?thesis
        using operations_try [of w "parse_env content"]
        by (auto simp: setup_session_credentials [OF Some rd Inr [unfolded cr]] operations_simps
            operations_prints)
    qed
  qed
qed

lemma channel_failure:
  assumes "env_vars ''BACKUP_CHANNEL_ID'' = Some b" "b \<noteq> []"
    and "(py_int (w_max_str_digits w) b = None \<and> e = w_int_error w b) \<or>
         (\<exists>n. py_int (w_max_str_digits w) b = Some n \<and> w_get_entity w n = Raises (Exception e))"
  shows "snd (backup_channel_test w env_vars) = None"
    and "set (channel_warning e) \<subseteq> set (fst (backup_channel_test w env_vars))"
  using assms
  by (auto simp: backup_channel_test_def env_get_def Let_def channel_warning_def)

lemma credentials_valid:
  "env_vars ''TELEGRAM_API_ID'' = Some a \<Longrightarrow> py_int lim a = Some api_id \<Longrightarrow> api_id \<noteq> 0 \<Longrightarrow>
   env_vars ''TELEGRAM_API_HASH'' = Some api_hash \<Longrightarrow> api_hash \<noteq> [] \<Longrightarrow>
   credentials lim env_vars = Inr (api_id, api_hash)"
  by (simp add: credentials_def env_get_def)

lemma channel_testing:
  "env_vars ''BACKUP_CHANNEL_ID'' = Some b \<Longrightarrow> b \<noteq> [] \<Longrightarrow>
   Print (LF # ''Testing access to backup channel: '' @ b) \<in> set (fst (backup_channel_test w env_vars))"
  by (simp add: backup_channel_test_def env_get_def Let_def
      split: option.splits outcome.splits exn.splits)

lemma channel_checked:
  "env_vars ''BACKUP_CHANNEL_ID'' = Some b \<Longrightarrow> b \<noteq> [] \<Longrightarrow> py_int (w_max_str_digits w) b = Some n \<Longrightarrow>
   GetEntity n \<in> set (fst (backup_channel_test w env_vars))"
  by (simp add: backup_channel_test_def env_get_def Let_def
      split: option.splits outcome.splits exn.splits)

lemma session_line_text: "session_line s = LF # ''USER_SESSION_STRING='' @ s @ [LF]"
  by (simp add: session_line_def)

lemma setup_session_saved:
  assumes "w_file w = Some content" "w_read w = Returns ()"
    and "credentials (w_max_str_digits w) (parse_env content) = Inr (api_id, api_hash)"
    and "w_start w = Returns ()" "w_is_user_authorized w = Returns True" "w_get_me w = Returns me"
    and "w_session_save w = Returns s" "w_append w = Returns ()"
  shows "trace (setup_session w) =
      (banner @
       [OpenRead, Print (''Using API_ID: '' @ str_int api_id),
        Print (''Using API_HASH: '' @ take 8 api_hash @ ''...''), NewClient api_id api_hash] @
       try_prefix @ [IsUserAuthorized, Print ''Authentication successful!'', GetMe] @
       user_info me @ [SessionSave]) @
      AppendEnv (LF # ''USER_SESSION_STRING='' @ s @ [LF]) #
      [Print (LF # ''Session string saved to .env file''),
       Print ''Setup completed! You can now upload large files.''] @
      fst (backup_channel_test w (parse_env content)) @
      handlers (snd (backup_channel_test w (parse_env content))) @ [Disconnect]"
    and "final_file (setup_session w) = Some (content @ LF # ''USER_SESSION_STRING='' @ s @ [LF])"
    and "status (setup_session w) = finally_status w (snd (backup_channel_test w (parse_env content)))"
  using assms(1)
  by (simp_all add: setup_session_credentials [OF assms(1-3)] try_saved [OF assms(4-8)]
      session_line_text append_file_def)

lemma main_runs_setup:
  "\<not> version_lt (w_version_info w) (3, 6) \<Longrightarrow> w_telethon_version w = Some v \<Longrightarrow>
   trace (main w) = Print (''Telethon version: '' @ v) # trace (setup_session w) \<and>
   final_file (main w) = final_file (setup_session w) \<and> status (main w) = status (setup_session w)"
  by (simp add: main_trace main_simps)

lemma setup_session_file_cases:
  "final_file (setup_session w) = w_file w \<or>
   (\<exists>content s. w_file w = Some content \<and> w_start w = Returns () \<and>
      w_is_user_authorized w = Returns True \<and> w_session_save w = Returns s \<and>
      w_append w = Returns () \<and> w_read w = Returns () \<and>
      final_file (setup_session w) = Some (content @ LF # ''USER_SESSION_STRING='' @ s @ [LF]))"
proof (cases "final_file (setup_session w) = w_file w")
  case True
  then show ?thesis by simp
next
  case False
  then obtain content s where c: "w_file w = Some content" "w_read w = Returns ()"
    "saved_session w = Some s"
    "final_file (setup_session w) = append_file (w_file w) (session_line s)"
    by (auto simp: setup_session_file split: option.splits sum.splits outcome.splits)
  then show ?thesis
    using saved_session_SomeD [OF c(3)]
    by (auto simp: append_file_def session_line_text)
qed

lemma main_file_cases:
  "final_file (main w) = w_file w \<or>
   (\<exists>content s. w_file w = Some content \<and> w_start w = Returns () \<and>
      w_is_user_authorized w = Returns True \<and> w_session_save w = Returns s \<and>
      w_append w = Returns () \<and> w_read w = Returns () \<and>
      final_file (main w) = Some (content @ LF # ''USER_SESSION_STRING='' @ s @ [LF]))"
  using setup_session_file_cases [of w] by (auto simp: main_simps)

lemma parse_env_session_line:
  assumes "CR \<notin> set s" "LF \<notin> set s"
  shows "parse_env (content @ LF # ''USER_SESSION_STRING='' @ s @ [LF]) =
         (parse_env content)(''USER_SESSION_STRING'' \<mapsto> rstrip s)"
    and "bindings (content @ LF # ''USER_SESSION_STRING='' @ s @ [LF]) =
         bindings content @ [(''USER_SESSION_STRING'', rstrip s)]"
proof -
  show b: "bindings (content @ LF # ''USER_SESSION_STRING='' @ s @ [LF]) =
         bindings content @ [(''USER_SESSION_STRING'', rstrip s)]"
    using bindings_session_line [OF assms, of content] by (simp add: session_line_text)
  show "parse_env (content @ LF # ''USER_SESSION_STRING='' @ s @ [LF]) =
         (parse_env content)(''USER_SESSION_STRING'' \<mapsto> rstrip s)"
    unfolding parse_env_map_of b by simp
qed

lemma op_name_mem:
  "e \<in> set tr \<Longrightarrow> op_name e = Some n \<Longrightarrow> n \<in> set (operations tr)"
  by (induction tr) (auto simp: operations_simps split: option.splits)

lemma op_name_Some: "(\<forall>s. e \<noteq> Print s) \<Longrightarrow> \<exists>n. op_name e = Some n"
  by (cases e) simp_all

lemma distinct_operations_count:
  "distinct (operations tr) \<Longrightarrow> (\<forall>s. e \<noteq> Print s) \<Longrightarrow> count_list tr e \<le> 1"
proof (induction tr)
  case Nil
  then show ?case by simp
next
  case (Cons x tr)
  then have d: "distinct (operations tr)"
    by (simp add: operations_simps split: option.splits)
  show ?case
  proof (cases "x = e")
    case True
    obtain n where n: "op_name e = Some n"
      using op_name_Some [OF Cons.prems(2)] by blast
    with Cons.prems(1) True have "n \<notin> set (operations tr)"
      by (simp add: operations_simps)
    then have "e \<notin> set tr"
      using op_name_mem [OF _ n] by blast
    then show ?thesis
      using True by (simp add: count_list_0_iff)
  next
    case False
    then show ?thesis
      using Cons.IH [OF d Cons.prems(2)] by simp
  qed
qed

section \<open>The example inputs evaluated\<close>

lemmas parse_eval = parse_env_def readlines_def LF_def CR_def parse_line_def strip_def isspace_def
  startswith_def split_eq_def env_get_def

lemmas int_eval = py_int_def int_strip_def int_space_def startswith_def isdigit_def literal_ok_def
  digits_value_def digit_val_def

lemma example_parse:
  "parse_env example_env ''TELEGRAM_API_ID'' = Some ''12345''"
  "parse_env example_env ''TELEGRAM_API_HASH'' = Some ''0123456789abcdef''"
  "parse_env example_env ''BACKUP_CHANNEL_ID'' = Some ''-1001234''"
  by (simp_all add: example_env_def parse_eval)

lemma example_id: "py_int 4300 ''12345'' = Some 12345"
  by (simp add: int_eval)

lemma example_chan: "py_int 4300 ''-1001234'' = Some (-1001234)"
  by (simp add: int_eval)

lemma example_credentials:
  "credentials 4300 (parse_env example_env) = Inr (12345, ''0123456789abcdef'')"
  by (simp add: credentials_def env_get_def example_parse example_id)

lemma example_fields:
  "w_file example_world = Some example_env" "w_read example_world = Returns ()"
  "w_max_str_digits example_world = 4300"
  "w_start example_world = Returns ()" "w_is_user_authorized example_world = Returns True"
  "w_get_me example_world = Returns example_user" "w_session_save example_world = Returns ''1BVtsOK''"
  "w_append example_world = Returns ()" "w_disconnect example_world = Returns ()"
  "w_get_entity example_world n = Raises (Exception ''Cannot find any entity'')"
  "w_version_info example_world = (3, 11)" "w_telethon_version example_world = Some ''1.36.0''"
  by (simp_all add: example_world_def)

lemma example_other_parse:
  "parse_env example_env_other ''TELEGRAM_API_ID'' = Some ''12345''"
  "parse_env example_env_other ''TELEGRAM_API_HASH'' = Some ''0123456789abcdef''"
  "parse_env example_env_other ''BACKUP_CHANNEL_ID'' = Some ''-1001234''"
  "parse_env example_env_other ''LOG_LEVEL'' = Some ''debug''"
  "parse_env example_env ''LOG_LEVEL'' = None"
  by (simp_all add: example_env_other_def example_env_def parse_eval)

lemma example_no_channel_parse:
  "parse_env example_env_no_channel ''TELEGRAM_API_ID'' = Some ''12345''"
  "parse_env example_env_no_channel ''TELEGRAM_API_HASH'' = Some ''0123456789abcdef''"
  "parse_env example_env_no_channel ''BACKUP_CHANNEL_ID'' = None"
  by (simp_all add: example_env_no_channel_def parse_eval)

lemma example_separator_parse:
  "parse_env example_env_separator ''TELEGRAM_API_ID'' = Some [CHR 0x1C, CHR ''7'']"
  "parse_env example_env_separator ''TELEGRAM_API_HASH'' = Some ''0123456789abcdef''"
  by (simp_all add: example_env_separator_def parse_eval)

lemma example_separator_id:
  "py_int 4300 (env_get (parse_env example_env_separator) ''TELEGRAM_API_ID'' []) = None"
  by (simp add: env_get_def example_separator_parse int_eval)

lemma example_valid:
  "w_file example_world = Some example_env \<and> w_read example_world = Returns () \<and>
   parse_env example_env ''TELEGRAM_API_ID'' = Some ''12345'' \<and>
   py_int (w_max_str_digits example_world) ''12345'' = Some 12345 \<and> (12345 :: int) \<noteq> 0 \<and>
   parse_env example_env ''TELEGRAM_API_HASH'' = Some ''0123456789abcdef'' \<and>
   ''0123456789abcdef'' \<noteq> []"
  by (simp add: example_fields example_parse example_id)

lemma example_success:
  "w_start example_world = Returns () \<and> w_is_user_authorized example_world = Returns True \<and>
   w_get_me example_world = Returns example_user \<and>
   w_session_save example_world = Returns ''1BVtsOK'' \<and> w_append example_world = Returns ()"
  by (simp add: example_fields)

lemma example_channel_id:
  "parse_env example_env ''BACKUP_CHANNEL_ID'' = Some ''-1001234'' \<and> ''-1001234'' \<noteq> [] \<and>
   py_int (w_max_str_digits example_world) ''-1001234'' = Some (- 1001234)"
  by (simp add: example_fields example_parse example_chan)

lemma example_main_valid:
  "w_file example_world = Some example_env \<and> w_read example_world = Returns () \<and>
   \<not> version_lt (w_version_info example_world) (3, 6) \<and>
   w_telethon_version example_world = Some ''1.36.0'' \<and>
   parse_env example_env ''TELEGRAM_API_ID'' = Some ''12345'' \<and>
   py_int (w_max_str_digits example_world) ''12345'' = Some 12345 \<and> (12345 :: int) \<noteq> 0 \<and>
   parse_env example_env ''TELEGRAM_API_HASH'' = Some ''0123456789abcdef'' \<and>
   ''0123456789abcdef'' \<noteq> []"
  using example_valid by (simp add: example_fields version_lt_def)

section \<open>Claims about parsing\<close>

text \<open>
  C10. A line is split at its first \<^verbatim>\<open>=\<close> only: when the stripped line is \<open>k=v\<close> with no
  \<^verbatim>\<open>=\<close> in \<open>k\<close> and \<open>k\<close> not starting with \<^verbatim>\<open>#\<close>, the line binds \<open>k\<close> to \<open>v\<close>, whatever \<open>v\<close>
  is (further \<^verbatim>\<open>=\<close> included), and the loop goes on with that binding stored. A line that
  is empty after stripping, starts with \<^verbatim>\<open>#\<close> or contains no \<^verbatim>\<open>=\<close> yields no binding, and the
  loop goes on with the dictionary unchanged.
\<close>

theorem parse_line_first_equals:
  "(strip raw = k @ CHR ''='' # v \<and> CHR ''='' \<notin> set k \<and> \<not> startswith k (CHR ''#'') \<longrightarrow>
      parse_line raw = Some (k, v) \<and>
      env_loop (raw # rest) env_vars = env_loop rest (env_vars(k \<mapsto> v))) \<and>
   (strip raw = [] \<or> startswith (strip raw) (CHR ''#'') \<or> CHR ''='' \<notin> set (strip raw) \<longrightarrow>
      parse_line raw = None \<and> env_loop (raw # rest) env_vars = env_loop rest env_vars)"
proof (intro conjI impI)
  assume a: "strip raw = k @ CHR ''='' # v \<and> CHR ''='' \<notin> set k \<and> \<not> startswith k (CHR ''#'')"
  then have "\<not> startswith (k @ CHR ''='' # v) (CHR ''#'')"
    by (cases k) (simp_all add: startswith_def)
  with a show p: "parse_line raw = Some (k, v)"
    by (simp add: parse_line_def split_eq_binding)
  then show "env_loop (raw # rest) env_vars = env_loop rest (env_vars(k \<mapsto> v))"
    by (rule env_loop_Cons_Some)
next
  assume "strip raw = [] \<or> startswith (strip raw) (CHR ''#'') \<or> CHR ''='' \<notin> set (strip raw)"
  then show p: "parse_line raw = None"
    by (simp add: parse_line_None_iff)
  then show "env_loop (raw # rest) env_vars = env_loop rest env_vars"
    by (rule env_loop_Cons_None)
qed

theorem parse_line_first_equals_witness:
  "parse_line [] = None \<and> parse_line '' # A=1'' = None \<and> parse_line ''no binding here'' = None \<and>
   parse_line ''  URL=a=b=c '' = Some (''URL'', ''a=b=c'') \<and>
   env_loop [''  URL=a=b=c '', ''# URL=x'', ''URL''] Map.empty ''URL'' = Some ''a=b=c''"
proof -
  have s: "strip ''  URL=a=b=c '' = ''URL'' @ CHR ''='' # ''a=b=c''"
      "strip '' # A=1'' = ''# A=1''" "strip ''no binding here'' = ''no binding here''"
      "strip ''# URL=x'' = ''# URL=x''" "strip ''URL'' = ''URL''" "strip [] = []"
    by (simp_all add: strip_def isspace_def)
  note t = parse_line_first_equals
  show ?thesis
    using t [of "''  URL=a=b=c ''" "''URL''" "''a=b=c''" "[''# URL=x'', ''URL'']" Map.empty]
      t [of "''# URL=x''" "[]" "[]" "[''URL'']" "[''URL'' \<mapsto> ''a=b=c'']"]
      t [of "''URL''" "[]" "[]" "[]" "[''URL'' \<mapsto> ''a=b=c'']"]
      t [of "[]" "[]" "[]" "[]" Map.empty]
      t [of "'' # A=1''" "[]" "[]" "[]" Map.empty]
      t [of "''no binding here''" "[]" "[]" "[]" Map.empty]
    by (simp add: s startswith_def)
qed

text \<open>
  C6. One file read yields one value per key: the dictionary binds \<open>k\<close> exactly when some
  line of the file binds \<open>k\<close>, and then to the value of the last such line.
\<close>

theorem parse_env_last_binding:
  "parse_env content k =
     (case filter (\<lambda>p. fst p = k) (bindings content) of
        [] \<Rightarrow> None
      | q # qs \<Rightarrow> Some (snd (last (q # qs))))"
proof -
  have "parse_env content = map_of (rev (bindings content))"
    by (rule parse_env_map_of)
  then show ?thesis
    by (simp add: map_of_rev_last)
qed

text \<open>
  C2, as amended. A file one of whose lines is \<open>k=v\<close> (\<open>k\<close> without \<^verbatim>\<open>=\<close>, not starting with
  \<^verbatim>\<open>#\<close>, \<open>k\<close> and \<open>v\<close> without surrounding whitespace) parses to a dictionary that binds \<open>k\<close>
  to \<open>v\<close>, provided no later line of the file binds \<open>k\<close> again. In particular, after the
  text of line 79 is appended for a session string \<open>s\<close> without surrounding whitespace and
  without a line break, parsing the file again yields \<open>s\<close> for \<^verbatim>\<open>USER_SESSION_STRING\<close>,
  whatever the file held before.
\<close>

theorem load_env_roundtrip:
  "(CHR ''='' \<notin> set k \<and> \<not> startswith k (CHR ''#'') \<and> strip k = k \<and> strip v = v \<and>
    (nl = [] \<or> nl = [LF]) \<and>
    readlines content = before @ (k @ CHR ''='' # v @ nl) # after \<and>
    (\<forall>l\<in>set after. map_option fst (parse_line l) \<noteq> Some k) \<longrightarrow>
      parse_env content k = Some v) \<and>
   (strip s = s \<and> CR \<notin> set s \<and> LF \<notin> set s \<longrightarrow>
      map_option (\<lambda>c. parse_env c ''USER_SESSION_STRING'') (append_file fs (session_line s)) =
        Some (Some s))"
  (is "(?line \<longrightarrow> ?bound) \<and> (?token \<longrightarrow> ?reread)")
proof (rule conjI; rule impI)
  assume a: ?line
  then have p: "parse_line (k @ CHR ''='' # v) = Some (k, v)"
    by (intro parse_line_binding) simp_all
  have "parse_line (k @ CHR ''='' # v @ nl) = Some (k, v)"
    using a p parse_line_LF [of "k @ CHR ''='' # v"] by auto
  then have "env_loop ((k @ CHR ''='' # v @ nl) # after) (env_loop before Map.empty) k = Some v"
    using a by (simp add: env_loop_unbound)
  then show ?bound
    using a by (simp add: parse_env_def env_loop_append)
next
  assume a: ?token
  have "\<And>content. parse_env (content @ session_line s) ''USER_SESSION_STRING'' = Some s"
    using a by (simp add: parse_env_map_of bindings_session_line rstrip_id)
  from this this [of "[]"] show ?reread
    by (simp add: append_file_def split: option.splits)
qed

theorem load_env_roundtrip_witness:
  "parse_env (''B=0'' @ [LF] @ ''A=1'' @ [LF] @ ''# A=2'' @ [LF]) ''A'' = Some ''1'' \<and>
   map_option (\<lambda>c. parse_env c ''USER_SESSION_STRING'')
     (append_file (Some example_env) (session_line ''1BVtsOK'')) = Some (Some ''1BVtsOK'')"
proof -
  have "CHR ''='' \<notin> set ''A'' \<and> \<not> startswith ''A'' (CHR ''#'') \<and> strip ''A'' = ''A'' \<and>
      strip ''1'' = ''1'' \<and> ([LF] = [] \<or> [LF] = [LF]) \<and>
      readlines (''B=0'' @ [LF] @ ''A=1'' @ [LF] @ ''# A=2'' @ [LF]) =
        [''B=0'' @ [LF]] @ (''A'' @ CHR ''='' # ''1'' @ [LF]) # [''# A=2'' @ [LF]] \<and>
      (\<forall>l\<in>set [''# A=2'' @ [LF]]. map_option fst (parse_line l) \<noteq> Some ''A'')"
    by (simp add: parse_eval)
  with load_env_roundtrip [where k = "''A''" and v = "''1''" and nl = "[LF]"
      and content = "''B=0'' @ [LF] @ ''A=1'' @ [LF] @ ''# A=2'' @ [LF]"
      and before = "[''B=0'' @ [LF]]" and after = "[''# A=2'' @ [LF]]"]
  have c1: "parse_env (''B=0'' @ [LF] @ ''A=1'' @ [LF] @ ''# A=2'' @ [LF]) ''A'' = Some ''1''"
    by blast
  have "strip ''1BVtsOK'' = ''1BVtsOK'' \<and> CR \<notin> set ''1BVtsOK'' \<and> LF \<notin> set ''1BVtsOK''"
    by (simp add: parse_eval)
  with load_env_roundtrip [where s = "''1BVtsOK''" and fs = "Some example_env"]
  have c2: "map_option (\<lambda>c. parse_env c ''USER_SESSION_STRING'')
      (append_file (Some example_env) (session_line ''1BVtsOK'')) = Some (Some ''1BVtsOK'')"
    by blast
  from c1 c2 show ?thesis by blast
qed

text \<open>
  C2 as stated does not hold: the file with the two lines \<^verbatim>\<open>A=1\<close> and \<^verbatim>\<open>A=2\<close> contains the
  line \<^verbatim>\<open>A=1\<close>, whose key and value meet every condition of the claim, and its dictionary
  binds \<^verbatim>\<open>A\<close> to \<^verbatim>\<open>2\<close>.
\<close>

theorem load_env_roundtrip_counterexample:
  "CHR ''='' \<notin> set ''A'' \<and> \<not> startswith ''A'' (CHR ''#'') \<and> strip ''A'' = ''A'' \<and> strip ''1'' = ''1'' \<and>
   readlines (''A=1'' @ [LF] @ ''A=2'' @ [LF]) = [''A=1'' @ [LF], ''A=2'' @ [LF]] \<and>
   parse_env (''A=1'' @ [LF] @ ''A=2'' @ [LF]) ''A'' = Some ''2'' \<and>
   parse_env (''A=1'' @ [LF] @ ''A=2'' @ [LF]) ''A'' \<noteq> Some ''1''"
  by (simp add: parse_env_def readlines_def LF_def CR_def parse_line_def strip_def isspace_def
      startswith_def split_eq_def)

section \<open>Claims about the file\<close>

text \<open>
  C5. The write is an append. When the file exists before the run it exists afterwards, its
  old contents are a prefix of the new ones, and its old lines (without their terminators) are
  the first lines of the new file, unchanged and in order; a missing file stays missing.
  \<open>setup_session\<close> opens the file for reading exactly once, so a run of \<open>main\<close> does so once
  unless it stops before the setup (interpreter too old, library not importable), and never
  twice; and a run opens the file for appending at most once.
\<close>

theorem env_file_append_only:
  "(case w_file w of
      None \<Rightarrow> final_file (main w) = None
    | Some old \<Rightarrow>
        (case final_file (main w) of
           None \<Rightarrow> False
         | Some new \<Rightarrow>
             take (length old) new = old \<and>
             take (length (content_lines old)) (content_lines new) = content_lines old)) \<and>
   count_list (trace (main w)) OpenRead =
     (if version_lt (w_version_info w) (3, 6) \<or> w_telethon_version w = None then 0 else 1) \<and>
   count_list (trace (setup_session w)) OpenRead = 1 \<and>
   length (appends (trace (main w))) \<le> 1"
proof (intro conjI)
  show "case w_file w of
      None \<Rightarrow> final_file (main w) = None
    | Some old \<Rightarrow>
        (case final_file (main w) of
           None \<Rightarrow> False
         | Some new \<Rightarrow>
             take (length old) new = old \<and>
             take (length (content_lines old)) (content_lines new) = content_lines old)"
  proof (cases "w_file w")
    case None
    then show ?thesis by (simp add: main_simps setup_session_file)
  next
    case (Some old)
    have "final_file (main w) = Some old \<or>
          (\<exists>s. final_file (main w) = Some (old @ LF # ''USER_SESSION_STRING='' @ s @ [LF]))"
      using Some
      by (auto simp: main_simps setup_session_file append_file_prefix
          split: option.splits sum.splits outcome.splits)
    then show ?thesis
      using Some by (auto simp: content_lines_append_LF)
  qed
  show "count_list (trace (main w)) OpenRead =
     (if version_lt (w_version_info w) (3, 6) \<or> w_telethon_version w = None then 0 else 1)"
    by (auto simp: main_trace setup_session_reads split: option.splits)
  show "count_list (trace (setup_session w)) OpenRead = 1"
    by (rule setup_session_reads)
  show "length (appends (trace (main w))) \<le> 1"
    using setup_session_appends [of w]
    by (simp add: main_trace appends_simps split: option.splits)
qed

text \<open>
  C9. The file is modified only after authorization succeeded. On each failure path (file
  missing, or present and not readable; \<^verbatim>\<open>TELEGRAM_API_ID\<close> rejected by \<^verbatim>\<open>int\<close> or zero;
  \<^verbatim>\<open>TELEGRAM_API_HASH\<close> empty or missing; \<^verbatim>\<open>start\<close>, \<^verbatim>\<open>is_user_authorized\<close>, \<^verbatim>\<open>get_me\<close>,
  \<^verbatim>\<open>session.save\<close> or the opening of the file for appending raising; the account not
  authorized) the file after the run is the file before it. Conversely, a run that leaves the
  file changed had \<^verbatim>\<open>start\<close> return and \<^verbatim>\<open>is_user_authorized\<close> return True, and the new file
  is the old one followed by the text of line 79. And the file does change: with a readable
  file, valid credentials and every step up to the write returning, the file after the run
  is the old one followed by that text.
\<close>

theorem env_file_unchanged_on_failure:
  "((w_file w = None \<or>
     (\<exists>e. w_read w = Raises e) \<or>
     (\<exists>content. w_file w = Some content \<and>
        (py_int (w_max_str_digits w) (env_get (parse_env content) ''TELEGRAM_API_ID'' []) = None \<or>
         py_int (w_max_str_digits w) (env_get (parse_env content) ''TELEGRAM_API_ID'' []) = Some 0 \<or>
         env_get (parse_env content) ''TELEGRAM_API_HASH'' [] = [])) \<or>
     (\<exists>e. w_start w = Raises e) \<or>
     (\<exists>e. w_is_user_authorized w = Raises e) \<or>
     w_is_user_authorized w = Returns False \<or>
     (\<exists>e. w_get_me w = Raises e) \<or>
     (\<exists>e. w_session_save w = Raises e) \<or>
     (\<exists>e. w_append w = Raises e)) \<longrightarrow>
    final_file (main w) = w_file w) \<and>
   (final_file (main w) \<noteq> w_file w \<longrightarrow>
      w_start w = Returns () \<and> w_is_user_authorized w = Returns True \<and>
      (\<exists>content s. w_file w = Some content \<and> w_session_save w = Returns s \<and>
           final_file (main w) = Some (content @ LF # ''USER_SESSION_STRING='' @ s @ [LF]))) \<and>
   (w_file w = Some content \<and> w_read w = Returns () \<and>
    \<not> version_lt (w_version_info w) (3, 6) \<and> w_telethon_version w = Some v \<and>
    parse_env content ''TELEGRAM_API_ID'' = Some a \<and>
    py_int (w_max_str_digits w) a = Some api_id \<and> api_id \<noteq> 0 \<and>
    parse_env content ''TELEGRAM_API_HASH'' = Some api_hash \<and> api_hash \<noteq> [] \<and>
    w_start w = Returns () \<and> w_is_user_authorized w = Returns True \<and> w_get_me w = Returns me \<and>
    w_session_save w = Returns s \<and> w_append w = Returns () \<longrightarrow>
      final_file (main w) = Some (content @ LF # ''USER_SESSION_STRING='' @ s @ [LF]) \<and>
      final_file (main w) \<noteq> w_file w)"
  (is "(?fails \<longrightarrow> ?same) \<and> (?changed \<longrightarrow> ?saved) \<and> (?success \<longrightarrow> ?stored)")
proof -
  have 1: "?fails \<longrightarrow> ?same"
  proof
    assume ?fails
    then consider (nofile) "w_file w = None"
      | (unreadable) e where "w_read w = Raises e"
      | (creds) content m where "w_file w = Some content"
          "credentials (w_max_str_digits w) (parse_env content) = Inl m"
      | (unsaved) "saved_session w = None"
      using credentials_Inl_iff [of "w_max_str_digits w"]
      by (fastforce simp: saved_session_def split: outcome.splits)
    then have "final_file (setup_session w) = w_file w"
      by cases (auto simp: setup_session_file split: option.splits sum.splits outcome.splits)
    then show ?same
      by (simp add: main_simps)
  qed
  have 2: "?changed \<longrightarrow> ?saved"
    using main_file_cases [of w] by auto
  have 3: "?success \<longrightarrow> ?stored"
  proof
    assume s: ?success
    then have c: "credentials (w_max_str_digits w) (parse_env content) = Inr (api_id, api_hash)"
      by (intro credentials_valid [where a = a]) simp_all
    have "final_file (setup_session w) = Some (content @ LF # ''USER_SESSION_STRING='' @ s @ [LF])"
      using s by (intro setup_session_saved(2) [OF _ _ c, where me = me]) simp_all
    then have "final_file (main w) = Some (content @ LF # ''USER_SESSION_STRING='' @ s @ [LF])"
      using s by (simp add: main_simps)
    then show ?stored
      using s by simp
  qed
  show ?thesis
    by (rule conjI [OF 1 conjI [OF 2 3]])
qed

theorem env_file_unchanged_on_failure_witness:
  "final_file (main (example_world\<lparr>w_file := None\<rparr>)) = None \<and>
   final_file (main (example_world\<lparr>w_read := Raises (Exception ''Permission denied'')\<rparr>)) =
     Some example_env \<and>
   final_file (main (example_world\<lparr>w_file := Some example_env_separator\<rparr>)) =
     Some example_env_separator \<and>
   final_file (main (example_world\<lparr>w_start := Raises (Exception ''Connection refused'')\<rparr>)) =
     Some example_env \<and>
   final_file (main (example_world\<lparr>w_is_user_authorized := Returns False\<rparr>)) = Some example_env \<and>
   final_file (main (example_world\<lparr>w_get_me := Raises (Exception ''Connection lost'')\<rparr>)) =
     Some example_env \<and>
   final_file (main (example_world\<lparr>w_append := Raises (Exception ''Permission denied'')\<rparr>)) =
     Some example_env \<and>
   final_file (main example_world) = Some (example_env @ LF # ''USER_SESSION_STRING='' @ ''1BVtsOK'' @ [LF]) \<and>
   final_file (main example_world) \<noteq> w_file example_world"
proof -
  note t = env_file_unchanged_on_failure
  let ?w1 = "example_world\<lparr>w_file := None\<rparr>"
  let ?w2 = "example_world\<lparr>w_read := Raises (Exception ''Permission denied'')\<rparr>"
  let ?w3 = "example_world\<lparr>w_file := Some example_env_separator\<rparr>"
  let ?w4 = "example_world\<lparr>w_start := Raises (Exception ''Connection refused'')\<rparr>"
  let ?w5 = "example_world\<lparr>w_is_user_authorized := Returns False\<rparr>"
  let ?w6 = "example_world\<lparr>w_get_me := Raises (Exception ''Connection lost'')\<rparr>"
  let ?w7 = "example_world\<lparr>w_append := Raises (Exception ''Permission denied'')\<rparr>"
  have "w_file ?w1 = None" by simp
  with t [where w = ?w1, THEN conjunct1]
  have c1: "final_file (main ?w1) = None" by simp
  have "w_read ?w2 = Raises (Exception ''Permission denied'')" by simp
  with t [where w = ?w2, THEN conjunct1]
  have c2: "final_file (main ?w2) = Some example_env" by (simp add: example_fields)
  have "w_file ?w3 = Some example_env_separator \<and>
      py_int (w_max_str_digits ?w3) (env_get (parse_env example_env_separator) ''TELEGRAM_API_ID'' []) = None"
    by (simp add: example_fields example_separator_id)
  with t [where w = ?w3, THEN conjunct1]
  have c3: "final_file (main ?w3) = Some example_env_separator" by simp
  have "w_start ?w4 = Raises (Exception ''Connection refused'')" by simp
  with t [where w = ?w4, THEN conjunct1]
  have c4: "final_file (main ?w4) = Some example_env" by (simp add: example_fields)
  have "w_is_user_authorized ?w5 = Returns False" by simp
  with t [where w = ?w5, THEN conjunct1]
  have c5: "final_file (main ?w5) = Some example_env" by (simp add: example_fields)
  have "w_get_me ?w6 = Raises (Exception ''Connection lost'')" by simp
  with t [where w = ?w6, THEN conjunct1]
  have c6: "final_file (main ?w6) = Some example_env" by (simp add: example_fields)
  have "w_append ?w7 = Raises (Exception ''Permission denied'')" by simp
  with t [where w = ?w7, THEN conjunct1]
  have c7: "final_file (main ?w7) = Some example_env" by (simp add: example_fields)
  have h: "w_file example_world = Some example_env \<and> w_read example_world = Returns () \<and>
    \<not> version_lt (w_version_info example_world) (3, 6) \<and>
    w_telethon_version example_world = Some ''1.36.0'' \<and>
    parse_env example_env ''TELEGRAM_API_ID'' = Some ''12345'' \<and>
    py_int (w_max_str_digits example_world) ''12345'' = Some 12345 \<and> (12345 :: int) \<noteq> 0 \<and>
    parse_env example_env ''TELEGRAM_API_HASH'' = Some ''0123456789abcdef'' \<and>
    ''0123456789abcdef'' \<noteq> [] \<and>
    w_start example_world = Returns () \<and> w_is_user_authorized example_world = Returns True \<and>
    w_get_me example_world = Returns example_user \<and>
    w_session_save example_world = Returns ''1BVtsOK'' \<and> w_append example_world = Returns ()"
    using example_valid example_success by (simp add: example_fields version_lt_def)
  from t [where w = example_world and content = example_env and v = "''1.36.0''" and a = "''12345''"
      and api_id = 12345 and api_hash = "''0123456789abcdef''" and me = example_user
      and s = "''1BVtsOK''", THEN conjunct2, THEN conjunct2] h
  have c8: "final_file (main example_world) =
      Some (example_env @ LF # ''USER_SESSION_STRING='' @ ''1BVtsOK'' @ [LF]) \<and>
      final_file (main example_world) \<noteq> w_file example_world"
    by (rule mp)
  from c1 c2 c3 c4 c5 c6 c7 c8 show ?thesis by blast
qed

text \<open>
  C3. The three keys are read and one key is written. Two files whose dictionaries agree on
  \<^verbatim>\<open>TELEGRAM_API_ID\<close>, \<^verbatim>\<open>TELEGRAM_API_HASH\<close> and \<^verbatim>\<open>BACKUP_CHANNEL_ID\<close> give the same events and
  the same exit status. The values are used: when the file is readable and the first two keys
  hold a non-zero integer and a non-empty hash, the client is created with exactly these two
  values; when moreover every step up to the write returns, the file after the run is the old
  file followed by \<^verbatim>\<open>\nUSER_SESSION_STRING=\<close>, the session string and \<^verbatim>\<open>\n\<close>, and a
  non-empty \<^verbatim>\<open>BACKUP_CHANNEL_ID\<close> is printed in the line that announces the channel test.
  Nothing else is ever written: the file after a run is the file before it, or that file
  followed by this text; and when the session string has no line break, the text adds
  exactly one binding to those of the file, with key \<^verbatim>\<open>USER_SESSION_STRING\<close>, and changes
  the dictionary of the file at that key only.
\<close>

theorem env_keys_read_and_written:
  "(parse_env content ''TELEGRAM_API_ID'' = parse_env content' ''TELEGRAM_API_ID'' \<and>
    parse_env content ''TELEGRAM_API_HASH'' = parse_env content' ''TELEGRAM_API_HASH'' \<and>
    parse_env content ''BACKUP_CHANNEL_ID'' = parse_env content' ''BACKUP_CHANNEL_ID'' \<longrightarrow>
      trace (main (w\<lparr>w_file := Some content'\<rparr>)) = trace (main (w\<lparr>w_file := Some content\<rparr>)) \<and>
      status (main (w\<lparr>w_file := Some content'\<rparr>)) = status (main (w\<lparr>w_file := Some content\<rparr>))) \<and>
   (w_file w = Some content \<and> w_read w = Returns () \<and>
    \<not> version_lt (w_version_info w) (3, 6) \<and> w_telethon_version w = Some v \<and>
    parse_env content ''TELEGRAM_API_ID'' = Some a \<and>
    py_int (w_max_str_digits w) a = Some api_id \<and> api_id \<noteq> 0 \<and>
    parse_env content ''TELEGRAM_API_HASH'' = Some api_hash \<and> api_hash \<noteq> [] \<longrightarrow>
      NewClient api_id api_hash \<in> set (trace (main w)) \<and>
      (w_start w = Returns () \<and> w_is_user_authorized w = Returns True \<and>
       w_get_me w = Returns me \<and> w_session_save w = Returns s \<and> w_append w = Returns () \<longrightarrow>
         final_file (main w) = Some (content @ LF # ''USER_SESSION_STRING='' @ s @ [LF]) \<and>
         (parse_env content ''BACKUP_CHANNEL_ID'' = Some b \<and> b \<noteq> [] \<longrightarrow>
            Print (LF # ''Testing access to backup channel: '' @ b) \<in> set (trace (main w))))) \<and>
   (final_file (main w) = w_file w \<or>
    (\<exists>old s. w_file w = Some old \<and> w_session_save w = Returns s \<and>
         final_file (main w) = Some (old @ LF # ''USER_SESSION_STRING='' @ s @ [LF]))) \<and>
   (CR \<notin> set s \<and> LF \<notin> set s \<longrightarrow>
      bindings (content @ LF # ''USER_SESSION_STRING='' @ s @ [LF]) =
        bindings content @ [(''USER_SESSION_STRING'', rstrip s)] \<and>
      parse_env (content @ LF # ''USER_SESSION_STRING='' @ s @ [LF]) =
        (parse_env content)(''USER_SESSION_STRING'' \<mapsto> rstrip s))"
  (is "(?agree \<longrightarrow> ?same) \<and> (?valid \<longrightarrow> ?client \<and> (?success \<longrightarrow> ?stored \<and> (?channel \<longrightarrow> ?tested))) \<and>
       ?only \<and> (?line \<longrightarrow> ?key)")
proof -
  have 1: "?agree \<longrightarrow> ?same"
  proof
    assume a: ?agree
    then have "credentials (w_max_str_digits w) (parse_env content) =
               credentials (w_max_str_digits w) (parse_env content')"
      by (intro credentials_cong) simp_all
    moreover have "setup_session_try w (parse_env content) = setup_session_try w (parse_env content')"
      using a by (intro try_env_cong) simp
    ultimately show ?same
      by (simp only: main_on_file setup_session_on_file)
  qed
  have 2: "?valid \<longrightarrow> ?client \<and> (?success \<longrightarrow> ?stored \<and> (?channel \<longrightarrow> ?tested))"
  proof
    assume v: ?valid
    then have f: "w_file w = Some content" and rd: "w_read w = Returns ()" by simp_all
    from v have c: "credentials (w_max_str_digits w) (parse_env content) = Inr (api_id, api_hash)"
      by (intro credentials_valid [where a = a]) simp_all
    from v have m: "trace (main w) = Print (''Telethon version: '' @ v) # trace (setup_session w)"
      "final_file (main w) = final_file (setup_session w)"
      using main_runs_setup [of w v] by simp_all
    have client: ?client
      by (simp add: m setup_session_credentials [OF f rd c])
    have "?success \<longrightarrow> ?stored \<and> (?channel \<longrightarrow> ?tested)"
    proof
      assume s: ?success
      note run = setup_session_saved [OF f rd c, where me = me and s = s]
      from s have tr: "trace (setup_session w) =
          (banner @
           [OpenRead, Print (''Using API_ID: '' @ str_int api_id),
            Print (''Using API_HASH: '' @ take 8 api_hash @ ''...''), NewClient api_id api_hash] @
           try_prefix @ [IsUserAuthorized, Print ''Authentication successful!'', GetMe] @
           user_info me @ [SessionSave]) @
          AppendEnv (LF # ''USER_SESSION_STRING='' @ s @ [LF]) #
          [Print (LF # ''Session string saved to .env file''),
           Print ''Setup completed! You can now upload large files.''] @
          fst (backup_channel_test w (parse_env content)) @
          handlers (snd (backup_channel_test w (parse_env content))) @ [Disconnect]"
        by (intro run(1)) simp_all
      from s have st: ?stored
        using run(2) by (simp add: m)
      have "?channel \<longrightarrow> ?tested"
      proof
        assume ?channel
        then have "Print (LF # ''Testing access to backup channel: '' @ b)
            \<in> set (fst (backup_channel_test w (parse_env content)))"
          by (intro channel_testing) simp_all
        then show ?tested
          by (simp add: m tr)
      qed
      with st show "?stored \<and> (?channel \<longrightarrow> ?tested)" ..
    qed
    with client show "?client \<and> (?success \<longrightarrow> ?stored \<and> (?channel \<longrightarrow> ?tested))" ..
  qed
  have 3: ?only
    using main_file_cases [of w] by auto
  have 4: "?line \<longrightarrow> ?key"
    using parse_env_session_line [of s content] by simp
  show ?thesis
    by (rule conjI [OF 1 conjI [OF 2 conjI [OF 3 4]]])
qed

theorem env_keys_read_and_written_witness:
  "parse_env example_env ''LOG_LEVEL'' \<noteq> parse_env example_env_other ''LOG_LEVEL'' \<and>
   trace (main (example_world\<lparr>w_file := Some example_env_other\<rparr>)) =
     trace (main (example_world\<lparr>w_file := Some example_env\<rparr>)) \<and>
   status (main (example_world\<lparr>w_file := Some example_env_other\<rparr>)) =
     status (main (example_world\<lparr>w_file := Some example_env\<rparr>)) \<and>
   NewClient 12345 ''0123456789abcdef'' \<in> set (trace (main example_world)) \<and>
   final_file (main example_world) =
     Some (example_env @ LF # ''USER_SESSION_STRING='' @ ''1BVtsOK'' @ [LF]) \<and>
   Print (LF # ''Testing access to backup channel: '' @ ''-1001234'')
     \<in> set (trace (main example_world)) \<and>
   bindings (example_env @ LF # ''USER_SESSION_STRING='' @ ''1BVtsOK'' @ [LF]) =
     bindings example_env @ [(''USER_SESSION_STRING'', rstrip ''1BVtsOK'')] \<and>
   parse_env (example_env @ LF # ''USER_SESSION_STRING='' @ ''1BVtsOK'' @ [LF]) =
     (parse_env example_env)(''USER_SESSION_STRING'' \<mapsto> rstrip ''1BVtsOK'')"
proof -
  note t = env_keys_read_and_written
  have h1: "parse_env example_env ''TELEGRAM_API_ID'' = parse_env example_env_other ''TELEGRAM_API_ID'' \<and>
    parse_env example_env ''TELEGRAM_API_HASH'' = parse_env example_env_other ''TELEGRAM_API_HASH'' \<and>
    parse_env example_env ''BACKUP_CHANNEL_ID'' = parse_env example_env_other ''BACKUP_CHANNEL_ID''"
    by (simp add: example_parse example_other_parse)
  from t [where content = example_env and content' = example_env_other and w = example_world,
      THEN conjunct1] h1
  have c1: "trace (main (example_world\<lparr>w_file := Some example_env_other\<rparr>)) =
     trace (main (example_world\<lparr>w_file := Some example_env\<rparr>)) \<and>
   status (main (example_world\<lparr>w_file := Some example_env_other\<rparr>)) =
     status (main (example_world\<lparr>w_file := Some example_env\<rparr>))"
    by (rule mp)
  note t2 = t [where w = example_world and content = example_env and v = "''1.36.0''"
      and a = "''12345''" and api_id = 12345 and api_hash = "''0123456789abcdef''"
      and me = example_user and s = "''1BVtsOK''" and b = "''-1001234''",
      THEN conjunct2, THEN conjunct1, THEN mp, OF example_main_valid]
  note c2 = t2 [THEN conjunct1]
  note t3 = t2 [THEN conjunct2, THEN mp, OF example_success]
  note c3 = t3 [THEN conjunct1]
  have h4: "parse_env example_env ''BACKUP_CHANNEL_ID'' = Some ''-1001234'' \<and> ''-1001234'' \<noteq> []"
    using example_channel_id by simp
  note c4 = t3 [THEN conjunct2, THEN mp, OF h4]
  have h5: "CR \<notin> set ''1BVtsOK'' \<and> LF \<notin> set ''1BVtsOK''"
    by (simp add: CR_def LF_def)
  note c5 = t [where s = "''1BVtsOK''" and content = example_env,
      THEN conjunct2, THEN conjunct2, THEN conjunct2, THEN mp, OF h5]
  have c0: "parse_env example_env ''LOG_LEVEL'' \<noteq> parse_env example_env_other ''LOG_LEVEL''"
    by (simp add: example_other_parse)
  from c0 c1 c2 c3 c4 c5 show ?thesis by blast
qed

section \<open>Claims about the order of the steps\<close>

text \<open>
  C7. Two values are loaded before the handshake and one is appended. Everything up to the
  call of \<^verbatim>\<open>start\<close> depends on the file through two keys only: files whose dictionaries agree
  on \<^verbatim>\<open>TELEGRAM_API_ID\<close> and \<^verbatim>\<open>TELEGRAM_API_HASH\<close> give the same events before \<^verbatim>\<open>start\<close>, and
  \<^verbatim>\<open>start\<close> is called for both or for neither. A run makes at most one append, and leaves the
  file as it was or followed by one text of line 79. With a readable file and valid
  credentials, the events before \<^verbatim>\<open>start\<close> are the banner, the reading of the file and the
  creation of the client with the two values, and \<^verbatim>\<open>start\<close> is called; when the steps up to
  the write return as well, exactly one text is appended, that of the session string
  \<open>s\<close>, and the file after the run is the old file followed by it.
\<close>

theorem two_values_before_handshake_one_appended:
  "(parse_env content ''TELEGRAM_API_ID'' = parse_env content' ''TELEGRAM_API_ID'' \<and>
    parse_env content ''TELEGRAM_API_HASH'' = parse_env content' ''TELEGRAM_API_HASH'' \<longrightarrow>
      takeWhile (\<lambda>e. e \<noteq> Start) (trace (setup_session (w\<lparr>w_file := Some content'\<rparr>))) =
      takeWhile (\<lambda>e. e \<noteq> Start) (trace (setup_session (w\<lparr>w_file := Some content\<rparr>))) \<and>
      (Start \<in> set (trace (setup_session (w\<lparr>w_file := Some content'\<rparr>))) \<longleftrightarrow>
       Start \<in> set (trace (setup_session (w\<lparr>w_file := Some content\<rparr>))))) \<and>
   length (appends (trace (setup_session w))) \<le> 1 \<and>
   (final_file (setup_session w) = w_file w \<or>
    (\<exists>old s. w_file w = Some old \<and> w_session_save w = Returns s \<and>
         final_file (setup_session w) = Some (old @ LF # ''USER_SESSION_STRING='' @ s @ [LF]))) \<and>
   (w_file w = Some content \<and> w_read w = Returns () \<and>
    parse_env content ''TELEGRAM_API_ID'' = Some a \<and>
    py_int (w_max_str_digits w) a = Some api_id \<and> api_id \<noteq> 0 \<and>
    parse_env content ''TELEGRAM_API_HASH'' = Some api_hash \<and> api_hash \<noteq> [] \<longrightarrow>
      takeWhile (\<lambda>e. e \<noteq> Start) (trace (setup_session w)) =
        banner @
        [OpenRead, Print (''Using API_ID: '' @ str_int api_id),
         Print (''Using API_HASH: '' @ take 8 api_hash @ ''...''), NewClient api_id api_hash,
         Print (LF # ''Starting authentication...'')] \<and>
      Start \<in> set (trace (setup_session w)) \<and>
      (w_start w = Returns () \<and> w_is_user_authorized w = Returns True \<and>
       w_get_me w = Returns me \<and> w_session_save w = Returns s \<and> w_append w = Returns () \<longrightarrow>
         appends (trace (setup_session w)) = [LF # ''USER_SESSION_STRING='' @ s @ [LF]] \<and>
         final_file (setup_session w) = Some (content @ LF # ''USER_SESSION_STRING='' @ s @ [LF])))"
  (is "(?agree \<longrightarrow> ?same) \<and> ?atmost \<and> ?only \<and> (?valid \<longrightarrow> ?before \<and> ?called \<and> (?success \<longrightarrow> ?one))")
proof -
  have 1: "?agree \<longrightarrow> ?same"
  proof
    assume ?agree
    then have "credentials (w_max_str_digits w) (parse_env content) =
               credentials (w_max_str_digits w) (parse_env content')"
      by (intro credentials_cong) simp_all
    then show ?same
      by (simp only: before_start_on_file)
  qed
  have 2: ?atmost
    by (rule setup_session_appends)
  have 3: ?only
    using setup_session_file_cases [of w] by auto
  have 4: "?valid \<longrightarrow> ?before \<and> ?called \<and> (?success \<longrightarrow> ?one)"
  proof
    assume v: ?valid
    then have f: "w_file w = Some content" and rd: "w_read w = Returns ()" by simp_all
    from v have c: "credentials (w_max_str_digits w) (parse_env content) = Inr (api_id, api_hash)"
      by (intro credentials_valid [where a = a]) simp_all
    from f have w: "w\<lparr>w_file := Some content\<rparr> = w" by simp
    have before: ?before
      using before_start_on_file(1) [where w = w and content = content] rd c by (simp add: w)
    have called: ?called
      using before_start_on_file(2) [where w = w and content = content] rd c by (simp add: w)
    have "?success \<longrightarrow> ?one"
    proof
      assume s: ?success
      note run = setup_session_saved [OF f rd c, where me = me and s = s]
      from s have "trace (setup_session w) =
          (banner @
           [OpenRead, Print (''Using API_ID: '' @ str_int api_id),
            Print (''Using API_HASH: '' @ take 8 api_hash @ ''...''), NewClient api_id api_hash] @
           try_prefix @ [IsUserAuthorized, Print ''Authentication successful!'', GetMe] @
           user_info me @ [SessionSave]) @
          AppendEnv (LF # ''USER_SESSION_STRING='' @ s @ [LF]) #
          [Print (LF # ''Session string saved to .env file''),
           Print ''Setup completed! You can now upload large files.''] @
          fst (backup_channel_test w (parse_env content)) @
          handlers (snd (backup_channel_test w (parse_env content))) @ [Disconnect]"
        by (intro run(1)) simp_all
      then have "appends (trace (setup_session w)) = [LF # ''USER_SESSION_STRING='' @ s @ [LF]]"
        by (simp add: appends_simps banner_prints handlers_prints appends_user_info
            appends_channel try_prefix_def)
      moreover from s have "final_file (setup_session w) =
          Some (content @ LF # ''USER_SESSION_STRING='' @ s @ [LF])"
        by (intro run(2)) simp_all
      ultimately show ?one ..
    qed
    with before called show "?before \<and> ?called \<and> (?success \<longrightarrow> ?one)" by blast
  qed
  show ?thesis
    by (rule conjI [OF 1 conjI [OF 2 conjI [OF 3 4]]])
qed

theorem two_values_before_handshake_one_appended_witness:
  "parse_env example_env ''BACKUP_CHANNEL_ID'' \<noteq> parse_env example_env_no_channel ''BACKUP_CHANNEL_ID'' \<and>
   takeWhile (\<lambda>e. e \<noteq> Start) (trace (setup_session (example_world\<lparr>w_file := Some example_env_no_channel\<rparr>))) =
   takeWhile (\<lambda>e. e \<noteq> Start) (trace (setup_session (example_world\<lparr>w_file := Some example_env\<rparr>))) \<and>
   takeWhile (\<lambda>e. e \<noteq> Start) (trace (setup_session example_world)) =
     banner @
     [OpenRead, Print (''Using API_ID: '' @ str_int 12345),
      Print (''Using API_HASH: '' @ take 8 ''0123456789abcdef'' @ ''...''),
      NewClient 12345 ''0123456789abcdef'', Print (LF # ''Starting authentication...'')] \<and>
   Start \<in> set (trace (setup_session example_world)) \<and>
   appends (trace (setup_session example_world)) = [LF # ''USER_SESSION_STRING='' @ ''1BVtsOK'' @ [LF]] \<and>
   final_file (setup_session example_world) =
     Some (example_env @ LF # ''USER_SESSION_STRING='' @ ''1BVtsOK'' @ [LF])"
proof -
  note t = two_values_before_handshake_one_appended
  have h1: "parse_env example_env ''TELEGRAM_API_ID'' = parse_env example_env_no_channel ''TELEGRAM_API_ID'' \<and>
    parse_env example_env ''TELEGRAM_API_HASH'' = parse_env example_env_no_channel ''TELEGRAM_API_HASH''"
    by (simp add: example_parse example_no_channel_parse)
  note c1 = t [where content = example_env and content' = example_env_no_channel
      and w = example_world, THEN conjunct1, THEN mp, OF h1, THEN conjunct1]
  note t2 = t [where w = example_world and content = example_env and a = "''12345''"
      and api_id = 12345 and api_hash = "''0123456789abcdef''" and me = example_user
      and s = "''1BVtsOK''",
      THEN conjunct2, THEN conjunct2, THEN conjunct2, THEN mp, OF example_valid]
  note c2 = t2 [THEN conjunct1]
  note c3 = t2 [THEN conjunct2, THEN conjunct1]
  note c4 = t2 [THEN conjunct2, THEN conjunct2, THEN mp, OF example_success]
  have c0: "parse_env example_env ''BACKUP_CHANNEL_ID'' \<noteq>
      parse_env example_env_no_channel ''BACKUP_CHANNEL_ID''"
    by (simp add: example_parse example_no_channel_parse)
  from c0 c1 c2 c3 c4 show ?thesis by blast
qed

text \<open>
  C4, as amended. In a run that calls \<^verbatim>\<open>get_entity n\<close>, the account was authorized, the text
  of line 79 was appended by an event before that call and is the end of the file after the
  run, and \<open>n\<close> is the integer value of a \<^verbatim>\<open>BACKUP_CHANNEL_ID\<close> that is present and not empty.
  When the file is readable, the credentials are valid, the account is authorized and
  \<^verbatim>\<open>get_me\<close>, \<^verbatim>\<open>session.save\<close> and the opening of the file for appending return, the file
  after the run is the old file followed by that text, and a \<^verbatim>\<open>BACKUP_CHANNEL_ID\<close> with the
  integer value \<open>n\<close> is resolved by \<^verbatim>\<open>get_entity n\<close>.
\<close>

theorem session_saved_before_channel_check:
  "(GetEntity n \<in> set (trace (setup_session w)) \<longrightarrow>
      w_is_user_authorized w = Returns True \<and>
      (\<exists>old s b. w_file w = Some old \<and> w_session_save w = Returns s \<and>
           AppendEnv (LF # ''USER_SESSION_STRING='' @ s @ [LF]) \<in>
             set (takeWhile (\<lambda>e. e \<noteq> GetEntity n) (trace (setup_session w))) \<and>
           final_file (setup_session w) = Some (old @ LF # ''USER_SESSION_STRING='' @ s @ [LF]) \<and>
           parse_env old ''BACKUP_CHANNEL_ID'' = Some b \<and> b \<noteq> [] \<and>
           py_int (w_max_str_digits w) b = Some n)) \<and>
   (w_file w = Some content \<and> w_read w = Returns () \<and>
    parse_env content ''TELEGRAM_API_ID'' = Some a \<and>
    py_int (w_max_str_digits w) a = Some api_id \<and> api_id \<noteq> 0 \<and>
    parse_env content ''TELEGRAM_API_HASH'' = Some api_hash \<and> api_hash \<noteq> [] \<and>
    w_start w = Returns () \<and> w_is_user_authorized w = Returns True \<and> w_get_me w = Returns me \<and>
    w_session_save w = Returns s \<and> w_append w = Returns () \<longrightarrow>
      final_file (setup_session w) = Some (content @ LF # ''USER_SESSION_STRING='' @ s @ [LF]) \<and>
      AppendEnv (LF # ''USER_SESSION_STRING='' @ s @ [LF]) \<in> set (trace (setup_session w)) \<and>
      (parse_env content ''BACKUP_CHANNEL_ID'' = Some b \<and> b \<noteq> [] \<and>
       py_int (w_max_str_digits w) b = Some n \<longrightarrow>
         GetEntity n \<in> set (trace (setup_session w))))"
  (is "(?checked \<longrightarrow> ?after_save) \<and> (?success \<longrightarrow> ?stored \<and> ?event \<and> (?channel \<longrightarrow> ?resolved))")
proof -
  have 1: "?checked \<longrightarrow> ?after_save"
  proof
    assume checked: ?checked
    show ?after_save
    proof (cases rule: setup_session_cases [of w])
      case nofile
      with checked show ?thesis by (simp add: GetEntity_banner)
    next
      case (unreadable content e)
      with checked show ?thesis by (simp add: GetEntity_banner)
    next
      case (bad content m)
      with checked show ?thesis by (simp add: GetEntity_banner)
    next
      case (valid content api_id api_hash)
      let ?body = "setup_session_try w (parse_env content)"
      have in_body: "GetEntity n \<in> set (fst ?body)"
        using checked by (simp add: valid(4) GetEntity_banner GetEntity_handlers)
      show ?thesis
      proof (cases rule: try_cases [of w])
        case (saved me s)
        note run = setup_session_saved [OF valid(1-3) saved]
        have "GetEntity n \<notin> set (banner @
             [OpenRead, Print (''Using API_ID: '' @ str_int api_id),
              Print (''Using API_HASH: '' @ take 8 api_hash @ ''...''), NewClient api_id api_hash] @
             try_prefix @ [IsUserAuthorized, Print ''Authentication successful!'', GetMe] @
             user_info me @ [SessionSave])"
          by (simp add: GetEntity_banner GetEntity_try_prefix GetEntity_user_info)
        then have before: "AppendEnv (LF # ''USER_SESSION_STRING='' @ s @ [LF]) \<in>
            set (takeWhile (\<lambda>e. e \<noteq> GetEntity n) (trace (setup_session w)))"
          unfolding run(1) by (intro takeWhile_mem) simp_all
        have "GetEntity n \<in> set (fst (backup_channel_test w (parse_env content)))"
          using in_body by (simp add: try_saved [OF saved] GetEntity_try_prefix GetEntity_user_info)
        then obtain b where "parse_env content ''BACKUP_CHANNEL_ID'' = Some b" "b \<noteq> []"
          "py_int (w_max_str_digits w) b = Some n"
          using GetEntity_channel by blast
        then show ?thesis
          using saved before valid(1) run(2) by auto
      qed (use in_body in \<open>simp_all add: try_start_raises try_authorized_raises try_not_authorized
            try_get_me_raises try_save_raises try_append_raises GetEntity_try_prefix
            GetEntity_user_info\<close>)
    qed
  qed
  have 2: "?success \<longrightarrow> ?stored \<and> ?event \<and> (?channel \<longrightarrow> ?resolved)"
  proof
    assume s: ?success
    then have f: "w_file w = Some content" and rd: "w_read w = Returns ()" by simp_all
    from s have c: "credentials (w_max_str_digits w) (parse_env content) = Inr (api_id, api_hash)"
      by (intro credentials_valid [where a = a]) simp_all
    note run = setup_session_saved [OF f rd c, where me = me and s = s]
    from s have tr: "trace (setup_session w) =
        (banner @
         [OpenRead, Print (''Using API_ID: '' @ str_int api_id),
          Print (''Using API_HASH: '' @ take 8 api_hash @ ''...''), NewClient api_id api_hash] @
         try_prefix @ [IsUserAuthorized, Print ''Authentication successful!'', GetMe] @
         user_info me @ [SessionSave]) @
        AppendEnv (LF # ''USER_SESSION_STRING='' @ s @ [LF]) #
        [Print (LF # ''Session string saved to .env file''),
         Print ''Setup completed! You can now upload large files.''] @
        fst (backup_channel_test w (parse_env content)) @
        handlers (snd (backup_channel_test w (parse_env content))) @ [Disconnect]"
      by (intro run(1)) simp_all
    from s have stored: ?stored
      by (intro run(2)) simp_all
    have event: ?event
      by (simp add: tr)
    have "?channel \<longrightarrow> ?resolved"
    proof
      assume ?channel
      then have "GetEntity n \<in> set (fst (backup_channel_test w (parse_env content)))"
        by (intro channel_checked [where b = b]) simp_all
      then show ?resolved
        by (simp add: tr)
    qed
    with stored event show "?stored \<and> ?event \<and> (?channel \<longrightarrow> ?resolved)" by blast
  qed
  show ?thesis
    by (rule conjI [OF 1 2])
qed

theorem session_saved_before_channel_check_witness:
  "GetEntity (- 1001234) \<in> set (trace (setup_session example_world)) \<and>
   w_is_user_authorized example_world = Returns True \<and>
   (\<exists>old s b. w_file example_world = Some old \<and> w_session_save example_world = Returns s \<and>
      AppendEnv (LF # ''USER_SESSION_STRING='' @ s @ [LF]) \<in>
        set (takeWhile (\<lambda>e. e \<noteq> GetEntity (- 1001234)) (trace (setup_session example_world))) \<and>
      final_file (setup_session example_world) = Some (old @ LF # ''USER_SESSION_STRING='' @ s @ [LF]) \<and>
      parse_env old ''BACKUP_CHANNEL_ID'' = Some b \<and> b \<noteq> [] \<and>
      py_int (w_max_str_digits example_world) b = Some (- 1001234)) \<and>
   final_file (setup_session example_world) =
     Some (example_env @ LF # ''USER_SESSION_STRING='' @ ''1BVtsOK'' @ [LF]) \<and>
   AppendEnv (LF # ''USER_SESSION_STRING='' @ ''1BVtsOK'' @ [LF])
     \<in> set (trace (setup_session example_world))"
proof -
  note t = session_saved_before_channel_check
  have h: "w_file example_world = Some example_env \<and> w_read example_world = Returns () \<and>
    parse_env example_env ''TELEGRAM_API_ID'' = Some ''12345'' \<and>
    py_int (w_max_str_digits example_world) ''12345'' = Some 12345 \<and> (12345 :: int) \<noteq> 0 \<and>
    parse_env example_env ''TELEGRAM_API_HASH'' = Some ''0123456789abcdef'' \<and>
    ''0123456789abcdef'' \<noteq> [] \<and>
    w_start example_world = Returns () \<and> w_is_user_authorized example_world = Returns True \<and>
    w_get_me example_world = Returns example_user \<and>
    w_session_save example_world = Returns ''1BVtsOK'' \<and> w_append example_world = Returns ()"
    using example_valid example_success by simp
  note t2 = t [where w = example_world and content = example_env and a = "''12345''"
      and api_id = 12345 and api_hash = "''0123456789abcdef''" and me = example_user
      and s = "''1BVtsOK''" and b = "''-1001234''" and n = "- 1001234",
      THEN conjunct2, THEN mp, OF h]
  note c1 = t2 [THEN conjunct1]
  note c2 = t2 [THEN conjunct2, THEN conjunct1]
  note c3 = t2 [THEN conjunct2, THEN conjunct2, THEN mp, OF example_channel_id]
  note c4 = t [where w = example_world and n = "- 1001234", THEN conjunct1, THEN mp, OF c3]
  from c1 c2 c3 c4 show ?thesis by blast
qed

text \<open>
  C4 as stated does not hold: authorization alone does not get the token written. In the
  example world with \<^verbatim>\<open>get_me\<close> raising, \<^verbatim>\<open>is_user_authorized\<close> returns True and the success
  message is printed, yet nothing is appended and the file is unchanged; the same holds
  for the file when its opening for appending raises.
\<close>

theorem session_saved_before_channel_check_counterexample:
  "w_start (example_world\<lparr>w_get_me := Raises (Exception ''Connection lost'')\<rparr>) = Returns () \<and>
   w_is_user_authorized (example_world\<lparr>w_get_me := Raises (Exception ''Connection lost'')\<rparr>) =
     Returns True \<and>
   Print ''Authentication successful!''
     \<in> set (trace (setup_session (example_world\<lparr>w_get_me := Raises (Exception ''Connection lost'')\<rparr>))) \<and>
   appends (trace (setup_session (example_world\<lparr>w_get_me := Raises (Exception ''Connection lost'')\<rparr>))) = [] \<and>
   final_file (setup_session (example_world\<lparr>w_get_me := Raises (Exception ''Connection lost'')\<rparr>)) =
     Some example_env \<and>
   status (setup_session (example_world\<lparr>w_get_me := Raises (Exception ''Connection lost'')\<rparr>)) =
     Completed \<and>
   w_is_user_authorized (example_world\<lparr>w_append := Raises (Exception ''Permission denied'')\<rparr>) =
     Returns True \<and>
   final_file (setup_session (example_world\<lparr>w_append := Raises (Exception ''Permission denied'')\<rparr>)) =
     Some example_env"
proof -
  let ?w = "example_world\<lparr>w_get_me := Raises (Exception ''Connection lost'')\<rparr>"
  have f: "w_file ?w = Some example_env" "w_read ?w = Returns ()"
    "credentials (w_max_str_digits ?w) (parse_env example_env) = Inr (12345, ''0123456789abcdef'')"
    by (simp_all add: example_fields example_credentials)
  have b: "setup_session_try ?w (parse_env example_env) =
      (try_prefix @ [IsUserAuthorized, Print ''Authentication successful!'', GetMe], w_file ?w,
       Some (Exception ''Connection lost''))"
    by (rule try_get_me_raises) (simp_all add: example_fields)
  let ?a = "example_world\<lparr>w_append := Raises (Exception ''Permission denied'')\<rparr>"
  have g: "w_file ?a = Some example_env" "w_read ?a = Returns ()"
    "credentials (w_max_str_digits ?a) (parse_env example_env) = Inr (12345, ''0123456789abcdef'')"
    by (simp_all add: example_fields example_credentials)
  have "fst (snd (setup_session_try ?a (parse_env example_env))) = w_file ?a"
    by (simp add: try_file saved_session_def example_fields)
  then have a: "final_file (setup_session ?a) = Some example_env"
    "w_is_user_authorized ?a = Returns True"
    by (simp_all add: setup_session_credentials [OF g] example_fields)
  show ?thesis
    using a
    by (simp add: setup_session_credentials [OF f] b example_fields appends_simps banner_prints
        handlers_prints try_prefix_def finally_status_def)
qed

section \<open>Claims about failures and inputs\<close>

text \<open>
  C1, as amended. A missing file, a \<^verbatim>\<open>TELEGRAM_API_ID\<close> that \<^verbatim>\<open>int\<close> rejects, and a zero id or
  an empty hash (in a file that can be read) each print their message and leave through
  \<^verbatim>\<open>sys.exit(1)\<close>. With a readable file, valid credentials and a \<^verbatim>\<open>disconnect\<close> that returns:
  an \<^verbatim>\<open>Exception\<close> raised by \<^verbatim>\<open>start\<close>, \<^verbatim>\<open>is_user_authorized\<close>, \<^verbatim>\<open>get_me\<close>, \<^verbatim>\<open>session.save\<close> or
  the opening of the file is caught, its text and the troubleshooting lines are printed and
  the procedure completes; an account that is not authorized is reported and the procedure
  completes; and a backup channel whose identifier is not an integer or which
  \<^verbatim>\<open>get_entity\<close> cannot resolve is reported by the warning and the procedure completes. In
  every run, no operation on the file and no call of the library is made twice.
\<close>

theorem setup_failures_caught:
  "(w_file w = None \<longrightarrow>
      status (setup_session w) = SysExit 1 \<and>
      Print ''.env file not found!'' \<in> set (trace (setup_session w))) \<and>
   (w_file w = Some content \<and> w_read w = Returns () \<and>
    py_int (w_max_str_digits w) (env_get (parse_env content) ''TELEGRAM_API_ID'' []) = None \<longrightarrow>
      status (setup_session w) = SysExit 1 \<and>
      Print ''Missing TELEGRAM_API_ID or TELEGRAM_API_HASH in .env file''
        \<in> set (trace (setup_session w))) \<and>
   (w_file w = Some content \<and> w_read w = Returns () \<and>
    py_int (w_max_str_digits w) (env_get (parse_env content) ''TELEGRAM_API_ID'' []) = Some api_id \<and>
    (api_id = 0 \<or> env_get (parse_env content) ''TELEGRAM_API_HASH'' [] = []) \<longrightarrow>
      status (setup_session w) = SysExit 1 \<and>
      Print ''Invalid API_ID or API_HASH in .env file'' \<in> set (trace (setup_session w))) \<and>
   (w_file w = Some content \<and> w_read w = Returns () \<and>
    parse_env content ''TELEGRAM_API_ID'' = Some a \<and>
    py_int (w_max_str_digits w) a = Some api_id \<and> api_id \<noteq> 0 \<and>
    parse_env content ''TELEGRAM_API_HASH'' = Some api_hash \<and> api_hash \<noteq> [] \<and>
    w_disconnect w = Returns () \<longrightarrow>
      (w_start w = Raises (Exception e) \<or>
        (w_start w = Returns () \<and> w_is_user_authorized w = Raises (Exception e)) \<or>
        (w_start w = Returns () \<and> w_is_user_authorized w = Returns True \<and>
         w_get_me w = Raises (Exception e)) \<or>
        (w_start w = Returns () \<and> w_is_user_authorized w = Returns True \<and>
         w_get_me w = Returns me \<and> w_session_save w = Raises (Exception e)) \<or>
        (w_start w = Returns () \<and> w_is_user_authorized w = Returns True \<and>
         w_get_me w = Returns me \<and> w_session_save w = Returns s \<and>
         w_append w = Raises (Exception e)) \<longrightarrow>
         status (setup_session w) = Completed \<and>
         set [Print (LF # ''Setup failed: '' @ e), Print (LF # ''Troubleshooting:''),
              Print ''1. Make sure your phone number includes country code (+84987654321)'',
              Print ''2. Check Telegram app for verification code'',
              Print ''3. If you have 2FA, enter your password correctly'',
              Print ''4. Ensure you have internet connection'']
           \<subseteq> set (trace (setup_session w))) \<and>
       (w_start w = Returns () \<and> w_is_user_authorized w = Returns False \<longrightarrow>
         status (setup_session w) = Completed \<and>
         Print ''Authentication failed'' \<in> set (trace (setup_session w))) \<and>
       (w_start w = Returns () \<and> w_is_user_authorized w = Returns True \<and>
        w_get_me w = Returns me \<and> w_session_save w = Returns s \<and> w_append w = Returns () \<and>
        parse_env content ''BACKUP_CHANNEL_ID'' = Some b \<and> b \<noteq> [] \<and>
        ((py_int (w_max_str_digits w) b = None \<and> e = w_int_error w b) \<or>
         (\<exists>n. py_int (w_max_str_digits w) b = Some n \<and>
              w_get_entity w n = Raises (Exception e))) \<longrightarrow>
         status (setup_session w) = Completed \<and>
         Print (''Warning: Cannot access backup channel: '' @ e) \<in> set (trace (setup_session w)) \<and>
         Print ''Make sure your account is added to the backup channel''
           \<in> set (trace (setup_session w)))) \<and>
   distinct (operations (trace (setup_session w))) \<and>
   ((\<forall>text. ev \<noteq> Print text) \<longrightarrow> count_list (trace (setup_session w)) ev \<le> 1)"
  (is "(?nofile \<longrightarrow> ?c1) \<and> (?nonnumeric \<longrightarrow> ?c2) \<and> (?invalid \<longrightarrow> ?c3) \<and>
       (?valid \<longrightarrow> (?network \<longrightarrow> ?c4) \<and> (?refused \<longrightarrow> ?c5) \<and> (?channel \<longrightarrow> ?c6)) \<and>
       ?once \<and> (?call \<longrightarrow> ?single)")
proof -
  have 1: "?nofile \<longrightarrow> ?c1"
    by (simp add: setup_session_nofile)
  have 2: "?nonnumeric \<longrightarrow> ?c2"
  proof
    assume a: ?nonnumeric
    then have "credentials (w_max_str_digits w) (parse_env content) =
        Inl ''Missing TELEGRAM_API_ID or TELEGRAM_API_HASH in .env file''"
      by (simp add: credentials_def)
    with a show ?c2 by (simp add: setup_session_bad_credentials)
  qed
  have 3: "?invalid \<longrightarrow> ?c3"
  proof
    assume a: ?invalid
    then have "credentials (w_max_str_digits w) (parse_env content) =
        Inl ''Invalid API_ID or API_HASH in .env file''"
      by (auto simp: credentials_def)
    with a show ?c3 by (simp add: setup_session_bad_credentials)
  qed
  have 4: "?valid \<longrightarrow> (?network \<longrightarrow> ?c4) \<and> (?refused \<longrightarrow> ?c5) \<and> (?channel \<longrightarrow> ?c6)"
  proof
    assume v: ?valid
    then have f: "w_file w = Some content" and rd: "w_read w = Returns ()"
      and d: "w_disconnect w = Returns ()" by simp_all
    from v have c: "credentials (w_max_str_digits w) (parse_env content) = Inr (api_id, api_hash)"
      by (intro credentials_valid [where a = a]) simp_all
    note run = setup_session_credentials [OF f rd c]
    have n: "?network \<longrightarrow> ?c4"
    proof
      assume a: ?network
      then have "snd (snd (setup_session_try w (parse_env content))) = Some (Exception e)"
        by (auto simp: try_start_raises try_authorized_raises try_get_me_raises try_save_raises
            try_append_raises)
      with d show ?c4
        by (simp add: run finally_status_def handlers_def)
    qed
    have r: "?refused \<longrightarrow> ?c5"
      using d by (simp add: run try_not_authorized finally_status_def)
    have ch: "?channel \<longrightarrow> ?c6"
    proof
      assume a: ?channel
      note saved = setup_session_saved [OF f rd c, where me = me and s = s]
      from a have tr: "trace (setup_session w) =
          (banner @
           [OpenRead, Print (''Using API_ID: '' @ str_int api_id),
            Print (''Using API_HASH: '' @ take 8 api_hash @ ''...''), NewClient api_id api_hash] @
           try_prefix @ [IsUserAuthorized, Print ''Authentication successful!'', GetMe] @
           user_info me @ [SessionSave]) @
          AppendEnv (LF # ''USER_SESSION_STRING='' @ s @ [LF]) #
          [Print (LF # ''Session string saved to .env file''),
           Print ''Setup completed! You can now upload large files.''] @
          fst (backup_channel_test w (parse_env content)) @
          handlers (snd (backup_channel_test w (parse_env content))) @ [Disconnect]"
        by (intro saved(1)) simp_all
      from a have st: "status (setup_session w) =
          finally_status w (snd (backup_channel_test w (parse_env content)))"
        by (intro saved(3)) simp_all
      from a have ch0: "parse_env content ''BACKUP_CHANNEL_ID'' = Some b" "b \<noteq> []"
        "(py_int (w_max_str_digits w) b = None \<and> e = w_int_error w b) \<or>
         (\<exists>n. py_int (w_max_str_digits w) b = Some n \<and> w_get_entity w n = Raises (Exception e))"
        by simp_all
      note chf = channel_failure [where env_vars = "parse_env content" and w = w and e = e, OF ch0]
      from chf(2) have "Print (''Warning: Cannot access backup channel: '' @ e)
          \<in> set (fst (backup_channel_test w (parse_env content)))"
        "Print ''Make sure your account is added to the backup channel''
          \<in> set (fst (backup_channel_test w (parse_env content)))"
        by (auto simp: channel_warning_def)
      with chf(1) d show ?c6
        by (simp add: tr st finally_status_def)
    qed
    from n r ch show "(?network \<longrightarrow> ?c4) \<and> (?refused \<longrightarrow> ?c5) \<and> (?channel \<longrightarrow> ?c6)"
      by (intro conjI)
  qed
  have 5: ?once
    by (rule setup_session_operations)
  have 6: "?call \<longrightarrow> ?single"
    using distinct_operations_count [OF 5] by blast
  show ?thesis
    by (rule conjI [OF 1 conjI [OF 2 conjI [OF 3 conjI [OF 4 conjI [OF 5 6]]]]])
qed

theorem setup_failures_caught_witness:
  "status (setup_session (example_world\<lparr>w_file := None\<rparr>)) = SysExit 1 \<and>
   Print ''.env file not found!'' \<in> set (trace (setup_session (example_world\<lparr>w_file := None\<rparr>))) \<and>
   status (setup_session (example_world\<lparr>w_file := Some example_env_separator\<rparr>)) = SysExit 1 \<and>
   Print ''Missing TELEGRAM_API_ID or TELEGRAM_API_HASH in .env file''
     \<in> set (trace (setup_session (example_world\<lparr>w_file := Some example_env_separator\<rparr>))) \<and>
   status (setup_session (example_world\<lparr>w_file := Some ''TELEGRAM_API_ID=12345''\<rparr>)) = SysExit 1 \<and>
   Print ''Invalid API_ID or API_HASH in .env file''
     \<in> set (trace (setup_session (example_world\<lparr>w_file := Some ''TELEGRAM_API_ID=12345''\<rparr>))) \<and>
   status (setup_session (example_world\<lparr>w_start := Raises (Exception ''Connection refused'')\<rparr>))
     = Completed \<and>
   Print (LF # ''Setup failed: Connection refused'')
     \<in> set (trace (setup_session (example_world\<lparr>w_start := Raises (Exception ''Connection refused'')\<rparr>))) \<and>
   Print ''4. Ensure you have internet connection''
     \<in> set (trace (setup_session (example_world\<lparr>w_start := Raises (Exception ''Connection refused'')\<rparr>))) \<and>
   status (setup_session (example_world\<lparr>w_is_user_authorized := Returns False\<rparr>)) = Completed \<and>
   Print ''Authentication failed''
     \<in> set (trace (setup_session (example_world\<lparr>w_is_user_authorized := Returns False\<rparr>))) \<and>
   status (setup_session example_world) = Completed \<and>
   Print ''Warning: Cannot access backup channel: Cannot find any entity''
     \<in> set (trace (setup_session example_world)) \<and>
   distinct (operations (trace (setup_session example_world))) \<and>
   count_list (trace (setup_session example_world)) Start \<le> 1"
proof -
  note t = setup_failures_caught
  let ?w1 = "example_world\<lparr>w_file := None\<rparr>"
  let ?w2 = "example_world\<lparr>w_file := Some example_env_separator\<rparr>"
  let ?w3 = "example_world\<lparr>w_file := Some ''TELEGRAM_API_ID=12345''\<rparr>"
  let ?w4 = "example_world\<lparr>w_start := Raises (Exception ''Connection refused'')\<rparr>"
  let ?w5 = "example_world\<lparr>w_is_user_authorized := Returns False\<rparr>"
  have h1: "w_file ?w1 = None" by simp
  note c1 = t [where w = ?w1, THEN conjunct1, THEN mp, OF h1]
  have h2: "w_file ?w2 = Some example_env_separator \<and> w_read ?w2 = Returns () \<and>
      py_int (w_max_str_digits ?w2) (env_get (parse_env example_env_separator) ''TELEGRAM_API_ID'' []) = None"
    by (simp add: example_fields example_separator_id)
  note c2 = t [where w = ?w2 and content = example_env_separator,
      THEN conjunct2, THEN conjunct1, THEN mp, OF h2]
  have h3: "w_file ?w3 = Some ''TELEGRAM_API_ID=12345'' \<and> w_read ?w3 = Returns () \<and>
      py_int (w_max_str_digits ?w3) (env_get (parse_env ''TELEGRAM_API_ID=12345'') ''TELEGRAM_API_ID'' []) = Some 12345 \<and>
      (12345 = (0::int) \<or> env_get (parse_env ''TELEGRAM_API_ID=12345'') ''TELEGRAM_API_HASH'' [] = [])"
    by (simp add: example_fields parse_eval int_eval)
  note c3 = t [where w = ?w3 and content = "''TELEGRAM_API_ID=12345''" and api_id = 12345,
      THEN conjunct2, THEN conjunct2, THEN conjunct1, THEN mp, OF h3]
  have h4: "w_file ?w4 = Some example_env \<and> w_read ?w4 = Returns () \<and>
      parse_env example_env ''TELEGRAM_API_ID'' = Some ''12345'' \<and>
      py_int (w_max_str_digits ?w4) ''12345'' = Some 12345 \<and> (12345 :: int) \<noteq> 0 \<and>
      parse_env example_env ''TELEGRAM_API_HASH'' = Some ''0123456789abcdef'' \<and>
      ''0123456789abcdef'' \<noteq> [] \<and> w_disconnect ?w4 = Returns ()"
    using example_valid by (simp add: example_fields)
  have n4: "w_start ?w4 = Raises (Exception ''Connection refused'') \<or>
      (w_start ?w4 = Returns () \<and> w_is_user_authorized ?w4 = Raises (Exception ''Connection refused'')) \<or>
      (w_start ?w4 = Returns () \<and> w_is_user_authorized ?w4 = Returns True \<and>
       w_get_me ?w4 = Raises (Exception ''Connection refused'')) \<or>
      (w_start ?w4 = Returns () \<and> w_is_user_authorized ?w4 = Returns True \<and>
       w_get_me ?w4 = Returns example_user \<and> w_session_save ?w4 = Raises (Exception ''Connection refused'')) \<or>
      (w_start ?w4 = Returns () \<and> w_is_user_authorized ?w4 = Returns True \<and>
       w_get_me ?w4 = Returns example_user \<and> w_session_save ?w4 = Returns ''1BVtsOK'' \<and>
       w_append ?w4 = Raises (Exception ''Connection refused''))"
    by simp
  note c4 = t [where w = ?w4 and content = example_env and a = "''12345''" and api_id = 12345
      and api_hash = "''0123456789abcdef''" and e = "''Connection refused''"
      and me = example_user and s = "''1BVtsOK''",
      THEN conjunct2, THEN conjunct2, THEN conjunct2, THEN conjunct1, THEN mp, OF h4,
      THEN conjunct1, THEN mp, OF n4]
  then have c4': "status (setup_session ?w4) = Completed \<and>
      Print (LF # ''Setup failed: Connection refused'') \<in> set (trace (setup_session ?w4)) \<and>
      Print ''4. Ensure you have internet connection'' \<in> set (trace (setup_session ?w4))"
    by simp
  have h5: "w_file ?w5 = Some example_env \<and> w_read ?w5 = Returns () \<and>
      parse_env example_env ''TELEGRAM_API_ID'' = Some ''12345'' \<and>
      py_int (w_max_str_digits ?w5) ''12345'' = Some 12345 \<and> (12345 :: int) \<noteq> 0 \<and>
      parse_env example_env ''TELEGRAM_API_HASH'' = Some ''0123456789abcdef'' \<and>
      ''0123456789abcdef'' \<noteq> [] \<and> w_disconnect ?w5 = Returns ()"
    using example_valid by (simp add: example_fields)
  have n5: "w_start ?w5 = Returns () \<and> w_is_user_authorized ?w5 = Returns False"
    by (simp add: example_fields)
  note c5 = t [where w = ?w5 and content = example_env and a = "''12345''" and api_id = 12345
      and api_hash = "''0123456789abcdef''",
      THEN conjunct2, THEN conjunct2, THEN conjunct2, THEN conjunct1, THEN mp, OF h5,
      THEN conjunct2, THEN conjunct1, THEN mp, OF n5]
  have h6: "w_file example_world = Some example_env \<and> w_read example_world = Returns () \<and>
      parse_env example_env ''TELEGRAM_API_ID'' = Some ''12345'' \<and>
      py_int (w_max_str_digits example_world) ''12345'' = Some 12345 \<and> (12345 :: int) \<noteq> 0 \<and>
      parse_env example_env ''TELEGRAM_API_HASH'' = Some ''0123456789abcdef'' \<and>
      ''0123456789abcdef'' \<noteq> [] \<and> w_disconnect example_world = Returns ()"
    using example_valid by (simp add: example_fields)
  have n6: "w_start example_world = Returns () \<and> w_is_user_authorized example_world = Returns True \<and>
      w_get_me example_world = Returns example_user \<and>
      w_session_save example_world = Returns ''1BVtsOK'' \<and> w_append example_world = Returns () \<and>
      parse_env example_env ''BACKUP_CHANNEL_ID'' = Some ''-1001234'' \<and> ''-1001234'' \<noteq> [] \<and>
      ((py_int (w_max_str_digits example_world) ''-1001234'' = None \<and>
          ''Cannot find any entity'' = w_int_error example_world ''-1001234'') \<or>
       (\<exists>n. py_int (w_max_str_digits example_world) ''-1001234'' = Some n \<and>
          w_get_entity example_world n = Raises (Exception ''Cannot find any entity'')))"
    using example_success example_channel_id by (simp add: example_fields)
  note c6 = t [where w = example_world and content = example_env and a = "''12345''"
      and api_id = 12345 and api_hash = "''0123456789abcdef''"
      and e = "''Cannot find any entity''" and me = example_user and s = "''1BVtsOK''"
      and b = "''-1001234''",
      THEN conjunct2, THEN conjunct2, THEN conjunct2, THEN conjunct1, THEN mp, OF h6,
      THEN conjunct2, THEN conjunct2, THEN mp, OF n6]
  then have c6': "status (setup_session example_world) = Completed \<and>
      Print ''Warning: Cannot access backup channel: Cannot find any entity''
        \<in> set (trace (setup_session example_world))"
    by simp
  note c7 = t [where w = example_world,
      THEN conjunct2, THEN conjunct2, THEN conjunct2, THEN conjunct2, THEN conjunct1]
  have h8: "\<forall>text. Start \<noteq> Print text" by simp
  note c8 = t [where w = example_world and ev = Start,
      THEN conjunct2, THEN conjunct2, THEN conjunct2, THEN conjunct2, THEN conjunct2,
      THEN mp, OF h8]
  from c1 c2 c3 c4' c5 c6' c7 c8 show ?thesis by blast
qed

text \<open>
  C1 as stated does not hold: \<^verbatim>\<open>disconnect\<close> runs in the \<^verbatim>\<open>finally\<close> block, outside every
  handler. When \<^verbatim>\<open>start\<close> raises a network error, the handler prints its message, and when
  \<^verbatim>\<open>disconnect\<close> then raises too, that exception leaves the process uncaught. Likewise a
  file that exists and cannot be read raises in \<^verbatim>\<open>load_env\<close>, whose only handler is the one
  for a missing file.
\<close>

theorem setup_failures_caught_counterexample:
  "w_start (example_world\<lparr>w_start := Raises (Exception ''Connection refused''),
                          w_disconnect := Raises (Exception ''Connection lost'')\<rparr>) =
     Raises (Exception ''Connection refused'') \<and>
   Print (LF # ''Setup failed: Connection refused'')
     \<in> set (trace (setup_session
         (example_world\<lparr>w_start := Raises (Exception ''Connection refused''),
                        w_disconnect := Raises (Exception ''Connection lost'')\<rparr>))) \<and>
   status (setup_session
     (example_world\<lparr>w_start := Raises (Exception ''Connection refused''),
                    w_disconnect := Raises (Exception ''Connection lost'')\<rparr>)) =
     Uncaught (Exception ''Connection lost'') \<and>
   status (setup_session (example_world\<lparr>w_read := Raises (Exception ''Permission denied'')\<rparr>)) =
     Uncaught (Exception ''Permission denied'')"
proof -
  let ?w = "example_world\<lparr>w_start := Raises (Exception ''Connection refused''),
                          w_disconnect := Raises (Exception ''Connection lost'')\<rparr>"
  let ?u = "example_world\<lparr>w_read := Raises (Exception ''Permission denied'')\<rparr>"
  have f: "w_file ?w = Some example_env" "w_read ?w = Returns ()"
    "credentials (w_max_str_digits ?w) (parse_env example_env) = Inr (12345, ''0123456789abcdef'')"
    by (simp_all add: example_fields example_credentials)
  have b: "setup_session_try ?w (parse_env example_env) =
      (try_prefix, w_file ?w, Some (Exception ''Connection refused''))"
    by (rule try_start_raises) simp
  have 1: "Print (LF # ''Setup failed: Connection refused'') \<in> set (trace (setup_session ?w))"
    "status (setup_session ?w) = Uncaught (Exception ''Connection lost'')"
    by (simp_all add: setup_session_credentials [OF f] b handlers_def finally_status_def)
  have "w_file ?u = Some example_env" "w_read ?u = Raises (Exception ''Permission denied'')"
    by (simp_all add: example_fields)
  then have 2: "status (setup_session ?u) = Uncaught (Exception ''Permission denied'')"
    by (simp add: setup_session_unreadable)
  from 1 2 show ?thesis by simp
qed

text \<open>
  C8. The command line has no influence: two runs in worlds that differ in nothing but
  \<^verbatim>\<open>sys.argv\<close> print the same, perform the same operations, leave the same file and end
  with the same status.
\<close>

theorem main_ignores_argv: "main (w\<lparr>w_argv := argv1\<rparr>) = main (w\<lparr>w_argv := argv2\<rparr>)"
  by (simp add: main_argv)

end
